theory Spec2Isabelle
  imports Main "HOL-Library.Multiset" "HOL-Library.Word"
begin

section \<open>Python strings\<close>

text \<open>
  A Python \<open>str\<close> is modelled as a \<open>string\<close> whose characters are the code points
  below 256 (Latin-1); \<open>length\<close> counts code points as Python's \<open>len\<close> does. The
  methods below follow the CPython behaviour of \<open>str.isspace\<close>, \<open>str.lower\<close>,
  \<open>str.strip\<close>, \<open>str.split\<close>, \<open>str.join\<close> and the \<open>in\<close> operator on that range.
\<close>

definition isspace :: "char \<Rightarrow> bool" where
  "isspace c =
     (let n = (of_char c :: nat)
      in (9 \<le> n \<and> n \<le> 13) \<or> (28 \<le> n \<and> n \<le> 32) \<or> n = 133 \<or> n = 160)"

definition lower_char :: "char \<Rightarrow> char" where
  "lower_char c =
     (let n = (of_char c :: nat)
      in if (65 \<le> n \<and> n \<le> 90) \<or> (192 \<le> n \<and> n \<le> 222 \<and> n \<noteq> 215)
         then char_of (n + 32) else c)"

definition lower :: "string \<Rightarrow> string" where
  "lower s = map lower_char s"

definition strip :: "string \<Rightarrow> string" where
  "strip s = rev (dropWhile isspace (rev (dropWhile isspace s)))"

text \<open>\<open>sub in s\<close>: \<open>sub\<close> occurs in \<open>s\<close> as a contiguous substring.\<close>

fun contains :: "string \<Rightarrow> string \<Rightarrow> bool" where
  "contains sub [] = (sub = [])"
| "contains sub (c # cs) = (take (length sub) (c # cs) = sub \<or> contains sub cs)"

text \<open>\<open>sep.join(xs)\<close>.\<close>

fun join :: "string \<Rightarrow> string list \<Rightarrow> string" where
  "join sep [] = []"
| "join sep [x] = x"
| "join sep (x # y # ys) = x @ sep @ join sep (y # ys)"

text \<open>
  \<open>s.split()\<close> with no separator: the maximal runs of non-whitespace characters, in
  order. \<open>cur\<close> is the word being read.
\<close>

fun split_ws_from :: "string \<Rightarrow> string \<Rightarrow> string list" where
  "split_ws_from cur [] = (if cur = [] then [] else [cur])"
| "split_ws_from cur (c # cs) =
     (if isspace c
      then (if cur = [] then split_ws_from [] cs else cur # split_ws_from [] cs)
      else split_ws_from (cur @ [c]) cs)"

definition split_ws :: "string \<Rightarrow> string list" where
  "split_ws s = split_ws_from [] s"

text \<open>\<open>s.split(sep)\<close> for a one-character separator: never the empty list.\<close>

fun split_on :: "char \<Rightarrow> string \<Rightarrow> string list" where
  "split_on sep [] = [[]]"
| "split_on sep (c # cs) =
     (if c = sep then [] # split_on sep cs
      else (case split_on sep cs of
              [] \<Rightarrow> [[c]]
            | w # ws \<Rightarrow> (c # w) # ws))"

text \<open>\<open>s.rfind(c)\<close>: the last index of \<open>c\<close>; \<open>None\<close> stands for Python's \<open>-1\<close>.\<close>

fun rfind :: "char \<Rightarrow> string \<Rightarrow> nat option" where
  "rfind c [] = None"
| "rfind c (x # xs) =
     (case rfind c xs of
        Some i \<Rightarrow> Some (Suc i)
      | None \<Rightarrow> if x = c then Some 0 else None)"

section \<open>Chat titles (\<open>get_chat_title\<close> of both services)\<close>

text \<open>
  \<open>words = first_message.split()[:5]; title = " ".join(words);
  if len(title) > 50: title = title[:47] + "..."; return title or "New Chat"\<close>.
  The enclosing \<open>try\<close> guards against a non-string argument only; on a \<open>str\<close> no
  operation of the body raises.
\<close>

definition AIService_get_chat_title :: "string \<Rightarrow> string" where
  "AIService_get_chat_title first_message =
     (let words = take 5 (split_ws first_message);
          title = join '' '' words;
          title = (if length title > 50 then take 47 title @ ''...'' else title)
      in if title = [] then ''New Chat'' else title)"

definition AlternativeAIService_get_chat_title :: "string \<Rightarrow> string" where
  "AlternativeAIService_get_chat_title first_message =
     (let words = take 5 (split_ws first_message);
          title = join '' '' words;
          title = (if length title > 50 then take 47 title @ ''...'' else title)
      in if title = [] then ''New Chat'' else title)"

section \<open>Exceptions\<close>

text \<open>
  Exceptions are values: a computation that can raise returns \<open>exn + 'a\<close>, with
  \<open>Inl\<close> the exception. \<open>HTTPException\<close> carries the status code and the detail.
\<close>

datatype exn =
    ConnectionError
  | IndexError
  | AttributeError string
  | OSError string
  | HTTPException nat string
  | Exception string

text \<open>\<open>str(e)\<close> of a caught exception, as the f-strings print it.\<close>

fun str_exn :: "exn \<Rightarrow> string" where
  "str_exn ConnectionError = ''Connection refused''"
| "str_exn IndexError = ''list index out of range''"
| "str_exn (AttributeError m) = m"
| "str_exn (OSError m) = m"
| "str_exn (HTTPException status detail) = detail"
| "str_exn (Exception m) = m"

section \<open>Settings (\<open>app/core/config.py\<close>)\<close>

definition MAX_FILE_SIZE :: nat where
  "MAX_FILE_SIZE = 10 * 1024 * 1024"

definition ALLOWED_EXTENSIONS :: "string set" where
  "ALLOWED_EXTENSIONS = {''.pdf'', ''.docx'', ''.txt''}"

definition UPLOAD_DIR :: string where
  "UPLOAD_DIR = ''uploads''"

section \<open>File processor (\<open>app/core/file_processor.py\<close>)\<close>

subsection \<open>\<open>pathlib\<close>\<close>

text \<open>
  \<open>Path(p).name\<close> on a POSIX path: the last component of \<open>p\<close>, where empty
  components and \<open>.\<close> components are dropped; the empty string when nothing is left.
\<close>

definition path_name :: "string \<Rightarrow> string" where
  "path_name p =
     (case filter (\<lambda>part. part \<noteq> [] \<and> part \<noteq> ''.'') (split_on CHR ''/'' p) of
        [] \<Rightarrow> []
      | part # parts \<Rightarrow> last (part # parts))"

text \<open>
  \<open>Path(p).suffix\<close>: \<open>i = name.rfind('.')\<close>; the suffix is \<open>name[i:]\<close> when
  \<open>0 < i < len(name) - 1\<close> and the empty string otherwise.
\<close>

definition path_suffix :: "string \<Rightarrow> string" where
  "path_suffix p =
     (let name = path_name p
      in case rfind CHR ''.'' name of
           None \<Rightarrow> []
         | Some i \<Rightarrow> if 0 < i \<and> Suc i < length name then drop i name else [])"

subsection \<open>The upload directory\<close>

type_synonym bytes = "8 word list"

text \<open>
  The part of the file system the processor touches: the files by path, and whether the
  upload directory can be written (\<open>open(file_path, "wb")\<close> raises otherwise).
\<close>

record filesystem =
  files :: "string \<rightharpoonup> bytes"
  writable :: bool

text \<open>
  What the text-extraction libraries and codecs do, taken as given: the texts of the
  pages of a PDF (\<open>PyPDF2\<close>), the paragraphs of a DOCX (\<open>python-docx\<close>), and the two
  decoders of text-mode \<open>open\<close>. \<open>Inl\<close> and \<open>None\<close> are the library raising.
\<close>

record extractors =
  pdf_page_texts :: "bytes \<Rightarrow> exn + string list"
  docx_paragraphs :: "bytes \<Rightarrow> exn + string list"
  decode_utf8 :: "bytes \<Rightarrow> string option"
  decode_latin1 :: "bytes \<Rightarrow> string"

definition NL :: char where
  "NL = CHR 0x0A"

definition is_allowed_file :: "string \<Rightarrow> bool" where
  "is_allowed_file filename \<longleftrightarrow> lower (path_suffix filename) \<in> ALLOWED_EXTENSIONS"

text \<open>\<open>uuid\<close> is the value \<open>uuid.uuid4()\<close> returns on this call, rendered by \<open>str\<close>.\<close>

definition generate_unique_filename :: "string \<Rightarrow> string \<Rightarrow> string" where
  "generate_unique_filename uuid original_filename = uuid @ path_suffix original_filename"

text \<open>
  \<open>save_file\<close> is only called with a generated name (no \<open>/\<close> in it), for which
  \<open>str(self.upload_dir / filename)\<close> is the directory, a slash and the name.
\<close>

definition save_file :: "filesystem \<Rightarrow> bytes \<Rightarrow> string \<Rightarrow> exn + (string \<times> filesystem)" where
  "save_file fs file_content filename =
     (let file_path = UPLOAD_DIR @ ''/'' @ filename
      in if writable fs
         then Inr (file_path, fs\<lparr>files := (files fs)(file_path \<mapsto> file_content)\<rparr>)
         else Inl (OSError ''cannot open file for writing''))"

definition extract_text_from_pdf :: "extractors \<Rightarrow> filesystem \<Rightarrow> string \<Rightarrow> string option" where
  "extract_text_from_pdf ex fs file_path =
     (case files fs file_path of
        None \<Rightarrow> None
      | Some b \<Rightarrow>
          (case pdf_page_texts ex b of
             Inl e \<Rightarrow> None
           | Inr pages \<Rightarrow> Some (strip (concat (map (\<lambda>t. t @ [NL]) pages)))))"

definition extract_text_from_docx :: "extractors \<Rightarrow> filesystem \<Rightarrow> string \<Rightarrow> string option" where
  "extract_text_from_docx ex fs file_path =
     (case files fs file_path of
        None \<Rightarrow> None
      | Some b \<Rightarrow>
          (case docx_paragraphs ex b of
             Inl e \<Rightarrow> None
           | Inr paragraphs \<Rightarrow> Some (strip (concat (map (\<lambda>t. t @ [NL]) paragraphs)))))"

text \<open>UTF-8 first; on \<open>UnicodeDecodeError\<close> Latin-1, which decodes every byte string.\<close>

definition extract_text_from_txt :: "extractors \<Rightarrow> filesystem \<Rightarrow> string \<Rightarrow> string option" where
  "extract_text_from_txt ex fs file_path =
     (case files fs file_path of
        None \<Rightarrow> None
      | Some b \<Rightarrow>
          (case decode_utf8 ex b of
             Some t \<Rightarrow> Some (strip t)
           | None \<Rightarrow> Some (strip (decode_latin1 ex b))))"

definition extract_text :: "extractors \<Rightarrow> filesystem \<Rightarrow> string \<Rightarrow> string \<Rightarrow> string option" where
  "extract_text ex fs file_path file_type =
     (if lower file_type = ''.pdf'' then extract_text_from_pdf ex fs file_path
      else if lower file_type = ''.docx'' then extract_text_from_docx ex fs file_path
      else if lower file_type = ''.txt'' then extract_text_from_txt ex fs file_path
      else None)"

text \<open>
  Returns \<open>(file_path, unique_filename, extracted_text)\<close> and the file system after
  the call. The enclosing \<open>try\<close> turns a failing \<open>save_file\<close> into three \<open>None\<close>s.
\<close>

definition process_uploaded_file ::
  "extractors \<Rightarrow> filesystem \<Rightarrow> string \<Rightarrow> bytes \<Rightarrow> string \<Rightarrow>
     (string option \<times> string option \<times> string option) \<times> filesystem" where
  "process_uploaded_file ex fs uuid file_content original_filename =
     (if \<not> is_allowed_file original_filename then ((None, None, None), fs)
      else
        let unique_filename = generate_unique_filename uuid original_filename
        in case save_file fs file_content unique_filename of
             Inl e \<Rightarrow> ((None, None, None), fs)
           | Inr (file_path, fs') \<Rightarrow>
               let file_type = lower (path_suffix original_filename);
                   extracted_text = extract_text ex fs' file_path file_type
               in ((Some file_path, Some unique_filename, extracted_text), fs'))"

section \<open>Persistence (\<open>app/models/models.py\<close>, \<open>app/crud/crud.py\<close>)\<close>

text \<open>
  The rows of the three tables the claims touch. Timestamps are numbers (microseconds);
  \<open>created_at\<close> is filled by the server default \<open>now()\<close>, read from \<open>clock\<close>.
  Primary keys come from the sequences \<open>next_*_id\<close>.
\<close>

record document =
  doc_id :: int
  doc_filename :: string
  doc_original_filename :: string
  doc_file_path :: string
  doc_file_type :: string
  doc_file_size :: nat
  doc_content :: "string option"
  doc_user_id :: int

record chat_session =
  sess_id :: int
  sess_title :: string
  sess_updated_at :: int
  sess_user_id :: int
  sess_document_id :: int

record chat_message =
  msg_id :: int
  msg_content :: string
  msg_is_user :: bool
  msg_created_at :: int
  msg_session_id :: int

record database =
  documents :: "document list"
  chat_sessions :: "chat_session list"
  chat_messages :: "chat_message list"
  next_document_id :: int
  next_message_id :: int
  clock :: int

text \<open>The fields of \<open>DocumentCreate\<close>, in the order of the call in \<open>upload_document\<close>.\<close>

definition create_document ::
  "database \<Rightarrow> string \<Rightarrow> string \<Rightarrow> string \<Rightarrow> string \<Rightarrow> nat \<Rightarrow> string option \<Rightarrow> int \<Rightarrow>
     document \<times> database" where
  "create_document db filename original_filename file_path file_type file_size content user_id =
     (let db_document = \<lparr>doc_id = next_document_id db, doc_filename = filename,
            doc_original_filename = original_filename, doc_file_path = file_path,
            doc_file_type = file_type, doc_file_size = file_size, doc_content = content,
            doc_user_id = user_id\<rparr>
      in (db_document,
          db\<lparr>documents := documents db @ [db_document],
             next_document_id := next_document_id db + 1\<rparr>))"






section \<open>Decimal rendering (\<open>str\<close> of an \<open>int\<close>, as f-strings use it)\<close>

definition digit_char :: "nat \<Rightarrow> char" where
  "digit_char d = char_of (48 + d)"

fun str_nat :: "nat \<Rightarrow> string" where
  "str_nat n = (if n < 10 then [digit_char n] else str_nat (n div 10) @ [digit_char (n mod 10)])"

declare str_nat.simps [simp del]

definition str_int :: "int \<Rightarrow> string" where
  "str_int i = (if i < 0 then CHR ''-'' # str_nat (nat (- i)) else str_nat (nat i))"

section \<open>The vector index (Pinecone)\<close>

text \<open>
  A vector as \<open>process_document_content\<close> builds it: \<open>{"id": ..., "values": ...,
  "metadata": {"text": ..., "document_id": ...}}\<close>. The type \<open>'e\<close> is the embedding.
\<close>

record 'e vector =
  vec_id :: string
  vec_values :: 'e
  vec_text :: string
  vec_document_id :: "int option"

text \<open>
  The index as the service sees it: per namespace the stored vectors keyed by id (a
  namespace exists exactly when it holds a vector), whether the service answers at all,
  and the error with which it answers a delete or an upsert request at this moment, if
  any (a timeout, a rejected request). Every operation of an unreachable index raises.
  A request that fails leaves the stored vectors as they are. \<open>delete(delete_all=True)\<close>
  on a namespace without vectors raises as well; \<open>upsert\<close> overwrites a vector whose
  id is already stored.
\<close>

record 'e pinecone_index =
  stored :: "string \<Rightarrow> (string \<times> 'e vector) list"
  reachable :: bool
  delete_fault :: "exn option"
  upsert_fault :: "exn option"

fun upsert_one :: "'e vector \<Rightarrow> (string \<times> 'e vector) list \<Rightarrow> (string \<times> 'e vector) list" where
  "upsert_one v [] = [(vec_id v, v)]"
| "upsert_one v ((k, w) # kvs) =
     (if k = vec_id v then (k, v) # kvs else (k, w) # upsert_one v kvs)"

definition index_delete_all :: "'e pinecone_index \<Rightarrow> string \<Rightarrow> exn + 'e pinecone_index" where
  "index_delete_all idx namespace =
     (if \<not> reachable idx then Inl ConnectionError
      else (case delete_fault idx of
              Some e \<Rightarrow> Inl e
            | None \<Rightarrow>
                if stored idx namespace = [] then Inl (Exception ''Namespace not found'')
                else Inr (idx\<lparr>stored := (stored idx)(namespace := [])\<rparr>)))"

definition index_upsert ::
  "'e pinecone_index \<Rightarrow> 'e vector list \<Rightarrow> string \<Rightarrow> exn + 'e pinecone_index" where
  "index_upsert idx vectors namespace =
     (if \<not> reachable idx then Inl ConnectionError
      else (case upsert_fault idx of
              Some e \<Rightarrow> Inl e
            | None \<Rightarrow>
                Inr (idx\<lparr>stored := (stored idx)
                       (namespace := fold upsert_one vectors (stored idx namespace))\<rparr>)))"

text \<open>\<open>namespace in index.describe_index_stats().get('namespaces', {})\<close>.\<close>

definition index_has_namespace :: "'e pinecone_index \<Rightarrow> string \<Rightarrow> exn + bool" where
  "index_has_namespace idx namespace =
     (if \<not> reachable idx then Inl ConnectionError
      else Inr (stored idx namespace \<noteq> []))"

section \<open>Language models (\<open>app/core/alternative_ai_service.py\<close>)\<close>

text \<open>What \<open>requests.post\<close> to the Ollama server yields.\<close>

datatype json_body =
    JsonError string
  | JsonObject "string option"

datatype ollama_outcome =
    CannotConnect
  | RequestFailed string
  | HttpResponse nat json_body

datatype chat_memory_message = HumanMessage string | AIMessage string

text \<open>
  The third-party models and services, taken as given:
  \<^item> \<open>split_text size overlap\<close>: \<open>RecursiveCharacterTextSplitter.split_text\<close>;
  \<^item> \<open>sentence_transformer\<close>, \<open>openai_embeddings\<close>: the embeddings of a list of texts;
  \<^item> \<open>ollama_post\<close>: the HTTP call of \<open>OllamaLLM._call\<close> for a prompt;
  \<^item> \<open>langchain_fault\<close>: the exception LangChain's \<open>LLM.__call__\<close> raises around
    \<open>_call\<close> for a prompt, if any;
  \<^item> \<open>nearest\<close>: the \<open>k\<close> stored vectors Pinecone ranks closest to a query embedding;
  \<^item> \<open>qa_chain_answer\<close>: the answer of a \<open>ConversationalRetrievalChain\<close> run with a
    memory, over the vectors of a namespace, on a question;
  \<^item> \<open>openai_completion\<close>: \<open>openai.Completion.create(...).choices[0].text\<close>;
  \<^item> \<open>new_vector_ids\<close>: the ids \<open>PineconeVectorStore.from_texts\<close> gives \<open>n\<close> texts.
\<close>

record 'e world =
  split_text :: "nat \<Rightarrow> nat \<Rightarrow> string \<Rightarrow> string list"
  sentence_transformer :: "string list \<Rightarrow> exn + 'e list"
  openai_embeddings :: "string list \<Rightarrow> exn + 'e list"
  ollama_post :: "string \<Rightarrow> ollama_outcome"
  langchain_fault :: "string \<Rightarrow> exn option"
  nearest :: "'e \<Rightarrow> nat \<Rightarrow> (string \<times> 'e vector) list \<Rightarrow> 'e vector list"
  qa_chain_answer ::
    "chat_memory_message list \<Rightarrow> (string \<times> 'e vector) list \<Rightarrow> string \<Rightarrow> exn + string"
  openai_completion :: "string \<Rightarrow> exn + string"
  new_vector_ids :: "nat \<Rightarrow> string list"

definition OllamaLLM_call :: "'e world \<Rightarrow> string \<Rightarrow> string" where
  "OllamaLLM_call w prompt =
     (case ollama_post w prompt of
        CannotConnect \<Rightarrow>
          ''Error: Cannot connect to Ollama. Make sure Ollama is running on localhost:11434''
      | RequestFailed m \<Rightarrow> ''Error: '' @ m
      | HttpResponse status_code body \<Rightarrow>
          if status_code = 200
          then (case body of
                  JsonError m \<Rightarrow> ''Error: '' @ m
                | JsonObject None \<Rightarrow> []
                | JsonObject (Some response) \<Rightarrow> response)
          else ''Error: Ollama API returned status '' @ str_nat status_code)"

text \<open>\<open>xs[1]\<close> of \<open>line.split(':', 1)\<close>: the text after the first colon.\<close>

definition after_first :: "char \<Rightarrow> string \<Rightarrow> exn + string" where
  "after_first c s =
     (case dropWhile (\<lambda>x. x \<noteq> c) s of
        [] \<Rightarrow> Inl IndexError
      | x # rest \<Rightarrow> Inr rest)"

text \<open>
  The \<open>for line in lines\<close> loop of \<open>SimpleLLM._call\<close>; \<open>in_context\<close> and
  \<open>context_lines\<close> are its two variables, the result is \<open>context_lines\<close> at the end
  of the loop (or at the \<open>break\<close>).
\<close>

fun context_loop :: "bool \<Rightarrow> string list \<Rightarrow> string list \<Rightarrow> exn + string list" where
  "context_loop in_context context_lines [] = Inr context_lines"
| "context_loop in_context context_lines (line # lines) =
     (if contains ''context:'' (lower line) then context_loop True context_lines lines
      else if contains ''question:'' (lower line) then
        (case after_first CHR '':'' line of
           Inl e \<Rightarrow> Inl e
         | Inr question \<Rightarrow> Inr context_lines)
      else if in_context then context_loop in_context (context_lines @ [strip line]) lines
      else context_loop in_context context_lines lines)"

definition canned_message :: string where
  "canned_message = ''I can help you with questions about the uploaded document. The document processing system is working with basic text analysis.''"

definition SimpleLLM_call :: "string \<Rightarrow> exn + string" where
  "SimpleLLM_call prompt =
     (if contains ''context:'' (lower prompt) then
        (case context_loop False [] (split_on NL prompt) of
           Inl e \<Rightarrow> Inl e
         | Inr context_lines \<Rightarrow>
             if context_lines \<noteq> []
             then Inr (''Based on the document context: '' @ join '' '' (take 3 context_lines))
             else Inr canned_message)
      else Inr canned_message)"

datatype llm = OllamaLLM | SimpleLLM

text \<open>\<open>self.llm(prompt)\<close>: LangChain's \<open>__call__\<close> around the model's \<open>_call\<close>.\<close>

definition llm_invoke :: "'e world \<Rightarrow> llm \<Rightarrow> string \<Rightarrow> exn + string" where
  "llm_invoke w l prompt =
     (case langchain_fault w prompt of
        Some e \<Rightarrow> Inl e
      | None \<Rightarrow>
          (case l of
             OllamaLLM \<Rightarrow> Inr (OllamaLLM_call w prompt)
           | SimpleLLM \<Rightarrow> SimpleLLM_call prompt))"

section \<open>The local backend (\<open>AlternativeAIService\<close>)\<close>

text \<open>
  \<open>alt_embeddings\<close> tells whether \<open>self.embeddings\<close> is the SentenceTransformer wrapper
  or \<open>None\<close>; \<open>alt_index\<close> is \<open>self.index\<close>.
\<close>

record 'e AlternativeAIService =
  alt_embeddings :: bool
  alt_llm :: llm
  alt_index :: "'e pinecone_index option"

text \<open>
  The choice of \<open>self.llm\<close> in \<open>__init__\<close>: the test call of the Ollama model, and the
  bare \<open>except\<close> that installs \<open>SimpleLLM\<close>.
\<close>

definition choose_llm :: "'e world \<Rightarrow> llm" where
  "choose_llm w =
     (case llm_invoke w OllamaLLM ''test'' of
        Inl e \<Rightarrow> SimpleLLM
      | Inr test_response \<Rightarrow>
          if contains ''Error: Cannot connect'' test_response then SimpleLLM else OllamaLLM)"

definition AlternativeAIService_init ::
  "'e world \<Rightarrow> bool \<Rightarrow> 'e pinecone_index option \<Rightarrow> 'e AlternativeAIService" where
  "AlternativeAIService_init w embeddings_loaded index =
     \<lparr>alt_embeddings = embeddings_loaded, alt_llm = choose_llm w, alt_index = index\<rparr>"

definition AlternativeAIService_get_document_namespace :: "int \<Rightarrow> string" where
  "AlternativeAIService_get_document_namespace document_id = ''doc_'' @ str_int document_id"

definition chunk_vector :: "int \<Rightarrow> nat \<times> string \<times> 'e \<Rightarrow> 'e vector" where
  "chunk_vector document_id ite =
     (case ite of (i, text, embedding) \<Rightarrow>
        \<lparr>vec_id = ''doc_'' @ str_int document_id @ ''_chunk_'' @ str_nat i,
         vec_values = embedding, vec_text = text, vec_document_id = Some document_id\<rparr>)"

text \<open>The result is the returned value (\<open>True\<close> or \<open>None\<close>) and the service afterwards.\<close>

definition AlternativeAIService_process_document_content ::
  "'e world \<Rightarrow> 'e AlternativeAIService \<Rightarrow> string \<Rightarrow> int \<Rightarrow>
     bool option \<times> 'e AlternativeAIService" where
  "AlternativeAIService_process_document_content w svc content document_id =
     (case alt_index svc of
        None \<Rightarrow> (None, svc)
      | Some idx \<Rightarrow>
          if \<not> alt_embeddings svc then (None, svc)
          else
            let texts = split_text w 1000 200 content;
                namespace = AlternativeAIService_get_document_namespace document_id;
                idx1 = (case index_delete_all idx namespace of Inl e \<Rightarrow> idx | Inr i \<Rightarrow> i)
            in (case sentence_transformer w texts of
                  Inl e \<Rightarrow> (None, svc\<lparr>alt_index := Some idx1\<rparr>)
                | Inr embeddings \<Rightarrow>
                    (let vectors = map (chunk_vector document_id)
                                     (zip [0 ..< length texts] (zip texts embeddings))
                     in (case index_upsert idx1 vectors namespace of
                           Inl e \<Rightarrow> (None, svc\<lparr>alt_index := Some idx1\<rparr>)
                         | Inr idx2 \<Rightarrow> (Some True, svc\<lparr>alt_index := Some idx2\<rparr>)))))"

text \<open>
  A loaded vector store is the index and the namespace it reads. Building a
  \<open>PineconeVectorStore\<close> without an embedding raises, which \<open>load_vectorstore\<close> catches.
\<close>

definition AlternativeAIService_load_vectorstore ::
  "'e AlternativeAIService \<Rightarrow> int \<Rightarrow> ('e pinecone_index \<times> string) option" where
  "AlternativeAIService_load_vectorstore svc document_id =
     (case alt_index svc of
        None \<Rightarrow> None
      | Some idx \<Rightarrow>
          (let namespace = AlternativeAIService_get_document_namespace document_id
           in (case index_has_namespace idx namespace of
                 Inl e \<Rightarrow> None
               | Inr present \<Rightarrow>
                   if \<not> present then None
                   else if \<not> alt_embeddings svc then None
                   else Some (idx, namespace))))"

text \<open>\<open>embed_query\<close>: \<open>self.model.encode([text])[0]\<close>.\<close>

definition embed_query :: "'e world \<Rightarrow> string \<Rightarrow> exn + 'e" where
  "embed_query w text =
     (case sentence_transformer w [text] of
        Inl e \<Rightarrow> Inl e
      | Inr [] \<Rightarrow> Inl IndexError
      | Inr (x # xs) \<Rightarrow> Inr x)"

text \<open>\<open>vectorstore.similarity_search(question, k)\<close>: the \<open>page_content\<close> of the hits.\<close>

definition similarity_search ::
  "'e world \<Rightarrow> 'e pinecone_index \<times> string \<Rightarrow> string \<Rightarrow> nat \<Rightarrow> exn + string list" where
  "similarity_search w vectorstore question k =
     (case embed_query w question of
        Inl e \<Rightarrow> Inl e
      | Inr q \<Rightarrow>
          if \<not> reachable (fst vectorstore) then Inl ConnectionError
          else Inr (map vec_text (nearest w q k (stored (fst vectorstore) (snd vectorstore)))))"

definition chat_prompt :: "string \<Rightarrow> string \<Rightarrow> string" where
  "chat_prompt context question =
     ''Based on the following context from the document, please answer the question.''
     @ [NL, NL] @ ''Context:'' @ [NL] @ context @ [NL, NL]
     @ ''Question: '' @ question @ [NL, NL] @ ''Answer:''"

text \<open>\<open>try: body except Exception as e: handler\<close>.\<close>

definition try_except :: "exn + 'a \<Rightarrow> (exn \<Rightarrow> exn + 'a) \<Rightarrow> exn + 'a" where
  "try_except body handler = (case body of Inl e \<Rightarrow> handler e | Inr v \<Rightarrow> Inr v)"

definition AlternativeAIService_chat_with_document ::
  "'e world \<Rightarrow> 'e AlternativeAIService \<Rightarrow> int \<Rightarrow> string \<Rightarrow> (string \<times> string) list \<Rightarrow>
     exn + string" where
  "AlternativeAIService_chat_with_document w svc document_id question chat_history =
     try_except
       (case AlternativeAIService_load_vectorstore svc document_id of
          None \<Rightarrow> Inr ''Error: Document not processed or vectorstore not found. Please reprocess the document.''
        | Some vectorstore \<Rightarrow>
            (case similarity_search w vectorstore question 3 of
               Inl e \<Rightarrow> Inl e
             | Inr docs \<Rightarrow>
                 if docs = []
                 then Inr ''I couldn't find relevant information in the document to answer your question.''
                 else
                   (let context = join [NL] docs;
                        prompt = chat_prompt context question
                    in (case llm_invoke w (alt_llm svc) prompt of
                          Inl e \<Rightarrow> Inl e
                        | Inr response \<Rightarrow>
                            Inr (if response \<noteq> [] then strip response
                                 else ''I'm sorry, I couldn't generate a response based on the document content.'')))))
       (\<lambda>e. Inr ''I'm sorry, I encountered an error while processing your question.'')"

definition summary_prompt :: "string \<Rightarrow> string" where
  "summary_prompt content =
     ''Please provide a comprehensive summary of the following document:''
     @ [NL] @ ''            '' @ [NL] @ content @ [NL, NL] @ ''Summary:''"

definition AlternativeAIService_summarize_document ::
  "'e world \<Rightarrow> 'e AlternativeAIService \<Rightarrow> string \<Rightarrow> exn + string" where
  "AlternativeAIService_summarize_document w svc content =
     try_except
       (let max_chars = 2000;
            content = (if length content > max_chars then take max_chars content @ ''...''
                       else content);
            prompt = summary_prompt content
        in case llm_invoke w (alt_llm svc) prompt of
             Inl e \<Rightarrow> Inl e
           | Inr summary \<Rightarrow>
               Inr (if summary \<noteq> [] then strip summary else ''Unable to generate summary.''))
       (\<lambda>e. Inr ''Error generating summary.'')"

section \<open>The hosted backend (\<open>AIService\<close>, \<open>app/core/ai_service.py\<close>)\<close>

record 'e AIService =
  ai_index :: "'e pinecone_index option"

definition AIService_get_document_namespace :: "int \<Rightarrow> string" where
  "AIService_get_document_namespace document_id = ''doc_'' @ str_int document_id"




definition AIService_load_vectorstore ::
  "'e AIService \<Rightarrow> int \<Rightarrow> ('e pinecone_index \<times> string) option" where
  "AIService_load_vectorstore svc document_id =
     (case ai_index svc of
        None \<Rightarrow> None
      | Some idx \<Rightarrow>
          (let namespace = AIService_get_document_namespace document_id
           in (case index_has_namespace idx namespace of
                 Inl e \<Rightarrow> None
               | Inr present \<Rightarrow> if \<not> present then None else Some (idx, namespace))))"

text \<open>
  The memory \<open>create_conversation_chain\<close> fills from the prior turns: empty strings
  are skipped.
\<close>

fun load_memory :: "(string \<times> string) list \<Rightarrow> chat_memory_message list" where
  "load_memory [] = []"
| "load_memory ((human_msg, ai_msg) # chat_history) =
     (if human_msg \<noteq> [] then [HumanMessage human_msg] else [])
     @ (if ai_msg \<noteq> [] then [AIMessage ai_msg] else [])
     @ load_memory chat_history"

definition AIService_chat_with_document ::
  "'e world \<Rightarrow> 'e AIService \<Rightarrow> int \<Rightarrow> string \<Rightarrow> (string \<times> string) list option \<Rightarrow>
     exn + string" where
  "AIService_chat_with_document w svc document_id question chat_history =
     try_except
       (case AIService_load_vectorstore svc document_id of
          None \<Rightarrow> Inr ''Error: Document not processed or vectorstore not found. Please reprocess the document.''
        | Some vectorstore \<Rightarrow>
            (let chat_history = (case chat_history of None \<Rightarrow> [] | Some h \<Rightarrow> h);
                 memory = load_memory chat_history
             in qa_chain_answer w memory (stored (fst vectorstore) (snd vectorstore)) question))
       (\<lambda>e. Inr ''I'm sorry, I encountered an error while processing your question.'')"

definition hosted_summary_prompt :: "string \<Rightarrow> string" where
  "hosted_summary_prompt content =
     [NL] @ ''            Please provide a comprehensive summary of the following document:''
     @ [NL] @ ''            '' @ [NL] @ ''            '' @ content
     @ [NL] @ ''            '' @ [NL] @ ''            Summary:'' @ [NL] @ ''            ''"

definition AIService_summarize_document :: "'e world \<Rightarrow> string \<Rightarrow> exn + string" where
  "AIService_summarize_document w content =
     try_except
       (let max_tokens = 3000;
            content = (if length content > max_tokens then take max_tokens content else content)
        in case openai_completion w (hosted_summary_prompt content) of
             Inl e \<Rightarrow> Inl e
           | Inr text \<Rightarrow> Inr (strip text))
       (\<lambda>e. Inr ''Error generating summary.'')"

section \<open>The API (\<open>app/api/documents.py\<close>, \<open>app/api/chat.py\<close>)\<close>

text \<open>
  Both modules bind \<open>ai_service\<close> by
  \<open>from app.core.alternative_ai_service import alternative_ai_service as ai_service\<close>:
  the state of the application holds that one service instance.
\<close>

record 'e app_state =
  db :: database
  fs :: filesystem
  ai_service :: "'e AlternativeAIService"

text \<open>
  What varies from one request to the next without being an input: the value of
  \<open>uuid.uuid4()\<close>, and the order in which the set \<open>ALLOWED_EXTENSIONS\<close> is iterated.
\<close>

record runtime =
  uuid4 :: string
  extension_order :: "string list"

text \<open>
  \<open>upload_document\<close> for the authenticated user \<open>user_id\<close>: the response (the new
  document, or the \<open>HTTPException\<close> raised) and the state afterwards.
\<close>

definition upload_document ::
  "'e world \<Rightarrow> extractors \<Rightarrow> runtime \<Rightarrow> 'e app_state \<Rightarrow> int \<Rightarrow> string option \<Rightarrow> bytes \<Rightarrow>
     (exn + document) \<times> 'e app_state" where
  "upload_document w ex rt app user_id filename file_content =
     (case filename of
        None \<Rightarrow> (Inl (HTTPException 400 ''No file provided''), app)
      | Some name \<Rightarrow>
          if name = [] then (Inl (HTTPException 400 ''No file provided''), app)
          else if \<not> is_allowed_file name then
            (Inl (HTTPException 400
               (''File type not allowed. Allowed types: '' @ join '', '' (extension_order rt))), app)
          else if length file_content > MAX_FILE_SIZE then
            (Inl (HTTPException 400 ''File too large. Maximum size: 10.0 MB''), app)
          else
            (case process_uploaded_file ex (fs app) (uuid4 rt) file_content name of
               ((file_path, unique_filename, extracted_text), fs') \<Rightarrow>
                 (case (file_path, unique_filename, extracted_text) of
                    (Some path, Some unique, Some text) \<Rightarrow>
                      if path = [] \<or> text = [] then
                        (Inl (HTTPException 500 ''Failed to process file''), app\<lparr>fs := fs'\<rparr>)
                      else
                        (case create_document (db app) unique name path
                                (lower (last (split_on CHR ''.'' name)))
                                (length file_content) (Some text) user_id of
                           (document, db') \<Rightarrow>
                             (case AlternativeAIService_process_document_content w
                                    (ai_service app) text (doc_id document) of
                                (r, svc') \<Rightarrow>
                                  (Inr document,
                                   app\<lparr>db := db', fs := fs', ai_service := svc'\<rparr>)))
                  | _ \<Rightarrow> (Inl (HTTPException 500 ''Failed to process file''), app\<lparr>fs := fs'\<rparr>))))"




section \<open>The context lines, described\<close>

text \<open>
  A description of what the loop of \<open>SimpleLLM._call\<close> collects, against which the
  loop is compared below. The lines are read up to the first line that holds
  \<open>question:\<close> and not \<open>context:\<close> (to the end when there is none); the context lines
  are the lines read after the first line that holds \<open>context:\<close>, leaving out every
  line that holds \<open>context:\<close>, each stripped.
\<close>

definition context_lines_described :: "string \<Rightarrow> string list" where
  "context_lines_described prompt =
     (let lines = split_on NL prompt;
          read = takeWhile (\<lambda>l. contains ''context:'' (lower l)
                                \<or> \<not> contains ''question:'' (lower l)) lines;
          after = dropWhile (\<lambda>l. \<not> contains ''context:'' (lower l)) read
      in map strip (filter (\<lambda>l. \<not> contains ''context:'' (lower l)) after))"

section \<open>Example inputs\<close>

text \<open>
  A small world for the concrete instances below: embeddings are numbers (the local
  model gives the length of the text, the hosted one twice the length), the Ollama
  server is down, the hosted embeddings, chain and completion always answer, the
  splitter returns its text as one chunk, and the index ranks vectors as stored.
\<close>

definition example_world :: "int world" where
  "example_world =
     \<lparr>split_text = (\<lambda>size overlap s. [s]),
      sentence_transformer = (\<lambda>texts. Inr (map (\<lambda>t. int (length t)) texts)),
      openai_embeddings = (\<lambda>texts. Inr (map (\<lambda>t. 2 * int (length t)) texts)),
      ollama_post = (\<lambda>prompt. CannotConnect),
      langchain_fault = (\<lambda>prompt. None),
      nearest = (\<lambda>q k vs. take k (map snd vs)),
      qa_chain_answer = (\<lambda>memory vs question. Inr ''hosted answer''),
      openai_completion = (\<lambda>prompt. Inr ''hosted summary''),
      new_vector_ids = (\<lambda>n. map str_nat [0 ..< n])\<rparr>"

definition example_extractors :: extractors where
  "example_extractors =
     \<lparr>pdf_page_texts = (\<lambda>b. if b = [] then Inl (Exception ''EOF marker not found'') else Inr []),
      docx_paragraphs = (\<lambda>b. Inr []),
      decode_utf8 = (\<lambda>b. Some (map (\<lambda>x. char_of (unat x)) b)),
      decode_latin1 = (\<lambda>b. map (\<lambda>x. char_of (unat x)) b)\<rparr>"

definition example_runtime :: runtime where
  "example_runtime =
     \<lparr>uuid4 = ''0f8fad5b-d9cb-469f-a165-70867728950e'',
      extension_order = [''.txt'', ''.pdf'', ''.docx'']\<rparr>"

definition example_vector :: "int vector" where
  "example_vector =
     \<lparr>vec_id = ''doc_1_chunk_0'', vec_values = 23, vec_text = ''Revenue grew 12% in Q3.'',
      vec_document_id = Some 1\<rparr>"

definition example_index :: "int pinecone_index" where
  "example_index =
     \<lparr>stored = (\<lambda>namespace. if namespace = ''doc_1'' then [(''doc_1_chunk_0'', example_vector)]
                              else []),
      reachable = True, delete_fault = None, upsert_fault = None\<rparr>"

definition example_service :: "int AlternativeAIService" where
  "example_service = \<lparr>alt_embeddings = True, alt_llm = SimpleLLM, alt_index = Some example_index\<rparr>"

definition example_messages :: "chat_message list" where
  "example_messages =
     [\<lparr>msg_id = 3, msg_content = ''It grew 12%.'', msg_is_user = False, msg_created_at = 20,
       msg_session_id = 7\<rparr>,
      \<lparr>msg_id = 2, msg_content = ''unrelated'', msg_is_user = True, msg_created_at = 15,
       msg_session_id = 8\<rparr>,
      \<lparr>msg_id = 1, msg_content = ''How did revenue develop?'', msg_is_user = True,
       msg_created_at = 10, msg_session_id = 7\<rparr>]"

definition example_db :: database where
  "example_db =
     \<lparr>documents = [],
      chat_sessions = [\<lparr>sess_id = 7, sess_title = ''How did revenue develop?'',
                         sess_updated_at = 20, sess_user_id = 1, sess_document_id = 1\<rparr>],
      chat_messages = example_messages,
      next_document_id = 1, next_message_id = 4, clock = 30\<rparr>"

definition example_app :: "int app_state" where
  "example_app =
     \<lparr>db = example_db, fs = \<lparr>files = Map.empty, writable = True\<rparr>,
      ai_service = example_service\<rparr>"

text \<open>The hosted service on the same index.\<close>

definition example_hosted_service :: "int AIService" where
  "example_hosted_service = \<lparr>ai_index = Some example_index\<rparr>"

text \<open>A world whose Ollama server answers every prompt with the prompt itself.\<close>

definition example_echo_world :: "int world" where
  "example_echo_world =
     example_world\<lparr>ollama_post := (\<lambda>prompt. HttpResponse 200 (JsonObject (Some prompt)))\<rparr>"

definition example_echo_service :: "int AlternativeAIService" where
  "example_echo_service = AlternativeAIService_init example_echo_world True (Some example_index)"

text \<open>A world in which every model call raises.\<close>

definition example_faulty_world :: "int world" where
  "example_faulty_world =
     example_world\<lparr>langchain_fault := (\<lambda>prompt. Some (Exception ''callback failed'')),
                    qa_chain_answer := (\<lambda>memory vs question. Inl (Exception ''rate limit'')),
                    openai_completion := (\<lambda>prompt. Inl (Exception ''rate limit''))\<rparr>"






text \<open>
  Two worlds whose Ollama server answers the test prompt of the constructor and fails
  every later request, each in its own way; and the services constructed in them.
\<close>

definition example_timeout_world :: "int world" where
  "example_timeout_world =
     example_world\<lparr>ollama_post := (\<lambda>prompt. if prompt = ''test''
        then HttpResponse 200 (JsonObject (Some ''ok'')) else RequestFailed ''Read timed out'')\<rparr>"

definition example_overload_world :: "int world" where
  "example_overload_world =
     example_world\<lparr>ollama_post := (\<lambda>prompt. if prompt = ''test''
        then HttpResponse 200 (JsonObject (Some ''ok''))
        else HttpResponse 503 (JsonError ''no body''))\<rparr>"

definition example_timeout_service :: "int AlternativeAIService" where
  "example_timeout_service =
     AlternativeAIService_init example_timeout_world True (Some example_index)"

definition example_overload_service :: "int AlternativeAIService" where
  "example_overload_service =
     AlternativeAIService_init example_overload_world True (Some example_index)"


section \<open>Verification\<close>

subsection \<open>Words and titles\<close>

lemma split_ws_from_words:
  "\<forall>c\<in>set cur. \<not> isspace c \<Longrightarrow> w \<in> set (split_ws_from cur s) \<Longrightarrow>
     w \<noteq> [] \<and> (\<forall>c\<in>set w. \<not> isspace c)"
proof (induction s arbitrary: cur)
  case Nil
  then show ?case by (auto split: if_splits)
next
  case (Cons a s)
  show ?case
  proof (cases "isspace a")
    case True
    with Cons.prems have "w = cur \<and> cur \<noteq> [] \<or> w \<in> set (split_ws_from [] s)"
      by (auto split: if_splits)
    then show ?thesis
    proof
      assume "w = cur \<and> cur \<noteq> []"
      with Cons.prems(1) show ?thesis by simp
    next
      assume "w \<in> set (split_ws_from [] s)"
      then show ?thesis using Cons.IH [of "[]"] by simp
    qed
  next
    case False
    with Cons.prems have "w \<in> set (split_ws_from (cur @ [a]) s)" by simp
    moreover have "\<forall>c\<in>set (cur @ [a]). \<not> isspace c" using False Cons.prems(1) by simp
    ultimately show ?thesis using Cons.IH by blast
  qed
qed

lemma split_ws_from_concat:
  "concat (split_ws_from cur s) = cur @ filter (\<lambda>c. \<not> isspace c) s"
  by (induction s arbitrary: cur) auto

lemma split_ws_nonempty_words: "w \<in> set (split_ws s) \<Longrightarrow> w \<noteq> []"
  using split_ws_from_words [of "[]" w s] by (simp add: split_ws_def)

lemma join_nonempty: "xs \<noteq> [] \<Longrightarrow> \<forall>x\<in>set xs. x \<noteq> [] \<Longrightarrow> join sep xs \<noteq> []"
  by (induction sep xs rule: join.induct) auto

lemma title_words_join_nonempty:
  assumes "split_ws m \<noteq> []"
  shows "join '' '' (take 5 (split_ws m)) \<noteq> []"
proof (rule join_nonempty)
  show "take 5 (split_ws m) \<noteq> []" using assms by simp
  show "\<forall>x\<in>set (take 5 (split_ws m)). x \<noteq> []"
    using split_ws_nonempty_words by (meson in_set_takeD)
qed

text \<open>
  Claim C10. For every first message, the two services' \<open>get_chat_title\<close> agree, and
  the title is nonempty and at most 50 characters long: it is \<open>New Chat\<close> when the
  message has no words, and otherwise the first five words joined by single spaces, cut
  to its first 47 characters followed by three dots when the join is longer than 50.
  The words are the maximal whitespace-free runs of the message: none is empty, none
  holds a whitespace character, and together they are the message without its whitespace.
\<close>

theorem get_chat_title_spec:
  "AIService_get_chat_title m = AlternativeAIService_get_chat_title m
   \<and> AlternativeAIService_get_chat_title m \<noteq> []
   \<and> length (AlternativeAIService_get_chat_title m) \<le> 50
   \<and> AlternativeAIService_get_chat_title m =
       (if split_ws m = [] then ''New Chat''
        else if length (join '' '' (take 5 (split_ws m))) > 50
             then take 47 (join '' '' (take 5 (split_ws m))) @ ''...''
             else join '' '' (take 5 (split_ws m)))
   \<and> (\<forall>w\<in>set (split_ws m). w \<noteq> [] \<and> (\<forall>c\<in>set w. \<not> isspace c))
   \<and> concat (split_ws m) = filter (\<lambda>c. \<not> isspace c) m"
proof -
  let ?j = "join '' '' (take 5 (split_ws m))"
  have same: "AIService_get_chat_title m = AlternativeAIService_get_chat_title m"
    by (simp add: AIService_get_chat_title_def AlternativeAIService_get_chat_title_def)
  have shape: "AlternativeAIService_get_chat_title m =
       (if split_ws m = [] then ''New Chat''
        else if length ?j > 50 then take 47 ?j @ ''...'' else ?j)"
  proof (cases "split_ws m = []")
    case True
    then show ?thesis by (simp add: AlternativeAIService_get_chat_title_def)
  next
    case False
    then have "?j \<noteq> []" by (rule title_words_join_nonempty)
    with False show ?thesis
      by (simp add: AlternativeAIService_get_chat_title_def Let_def)
  qed
  have ne: "AlternativeAIService_get_chat_title m \<noteq> []"
    using title_words_join_nonempty [of m] by (simp add: shape)
  have le: "length (AlternativeAIService_get_chat_title m) \<le> 50"
    by (simp add: shape)
  have words: "\<forall>w\<in>set (split_ws m). w \<noteq> [] \<and> (\<forall>c\<in>set w. \<not> isspace c)"
    using split_ws_from_words [of "[]" _ m] by (simp add: split_ws_def)
  have cat: "concat (split_ws m) = filter (\<lambda>c. \<not> isspace c) m"
    by (simp add: split_ws_def split_ws_from_concat)
  from same shape ne le words cat show ?thesis by blast
qed

theorem get_chat_title_spec_witness:
  "AIService_get_chat_title
     '' what does  the report say about revenue growth in the third quarter''
     = ''what does the report say''
   \<and> AIService_get_chat_title
     ''internationalization interoperability considerations''
     = ''internationalization interoperability considera...''
   \<and> AlternativeAIService_get_chat_title ''   '' = ''New Chat''
   \<and> split_ws '' a  b '' = [''a'', ''b'']"
proof -
  have "AlternativeAIService_get_chat_title
     '' what does  the report say about revenue growth in the third quarter''
     = ''what does the report say''" by code_simp
  moreover have "AlternativeAIService_get_chat_title
     ''internationalization interoperability considerations''
     = ''internationalization interoperability considera...''" by code_simp
  moreover have "AlternativeAIService_get_chat_title ''   '' = ''New Chat''" by code_simp
  moreover have "split_ws '' a  b '' = [''a'', ''b'']" by code_simp
  ultimately show ?thesis
    using get_chat_title_spec
      [of "'' what does  the report say about revenue growth in the third quarter''"]
      get_chat_title_spec [of "''internationalization interoperability considerations''"]
    by simp
qed

subsection \<open>Extensions\<close>

lemma of_char_lower_char:
  "(of_char (lower_char c) :: nat) =
     (let n = of_char c in
      if (65 \<le> n \<and> n \<le> 90) \<or> (192 \<le> n \<and> n \<le> 222 \<and> n \<noteq> 215) then n + 32 else n)"
  by (auto simp: lower_char_def Let_def)

lemma lower_char_eq_low:
  assumes "(of_char d :: nat) < 65"
  shows "lower_char c = d \<longleftrightarrow> c = d"
proof
  assume h: "lower_char c = d"
  have "(of_char (lower_char c) :: nat) < 65" using assms h by simp
  then have "\<not> ((65 \<le> (of_char c :: nat) \<and> (of_char c :: nat) \<le> 90)
       \<or> (192 \<le> (of_char c :: nat) \<and> (of_char c :: nat) \<le> 222 \<and> (of_char c :: nat) \<noteq> 215))"
    by (auto simp: of_char_lower_char Let_def split: if_splits)
  then have "lower_char c = c" unfolding lower_char_def Let_def by (simp only: if_False)
  with h show "c = d" by simp
next
  assume "c = d"
  with assms show "lower_char c = d" by (simp add: lower_char_def Let_def)
qed

lemma lower_char_dot: "lower_char c = CHR ''.'' \<longleftrightarrow> c = CHR ''.''"
  by (rule lower_char_eq_low) simp

lemma lower_char_colon: "lower_char c = CHR '':'' \<longleftrightarrow> c = CHR '':''"
  by (rule lower_char_eq_low) simp

lemma rfind_None: "rfind c s = None \<longleftrightarrow> c \<notin> set s"
  by (induction s) (auto split: option.splits)

lemma rfind_Some:
  "rfind c s = Some i \<Longrightarrow> i < length s \<and> s ! i = c \<and> c \<notin> set (drop (Suc i) s)"
proof (induction s arbitrary: i)
  case Nil
  then show ?case by simp
next
  case (Cons x xs)
  show ?case
  proof (cases "rfind c xs")
    case None
    with Cons.prems have "x = c" "i = 0" by (auto split: if_splits)
    moreover from None have "c \<notin> set xs" by (simp add: rfind_None)
    ultimately show ?thesis by simp
  next
    case (Some j)
    with Cons.prems have "i = Suc j" by simp
    with Cons.IH [OF Some] show ?thesis by simp
  qed
qed

lemma rfind_append: "c \<notin> set t \<Longrightarrow> rfind c (s @ c # t) = Some (length s)"
proof (induction s)
  case Nil
  then show ?case by (simp add: rfind_None [THEN iffD2])
next
  case (Cons a s)
  then show ?case by simp
qed

lemma lower_dot_ext:
  assumes "lower ext = CHR ''.'' # r" "CHR ''.'' \<notin> set r" "r \<noteq> []"
  shows "\<exists>rest. ext = CHR ''.'' # rest \<and> CHR ''.'' \<notin> set rest \<and> rest \<noteq> []"
proof -
  from assms(1) obtain c0 rest where e: "ext = c0 # rest" "lower_char c0 = CHR ''.''"
    "map lower_char rest = r"
    by (cases ext) (auto simp: lower_def)
  from e(2) have "c0 = CHR ''.''" by (simp add: lower_char_dot)
  moreover have "CHR ''.'' \<notin> set rest"
  proof
    assume "CHR ''.'' \<in> set rest"
    then have "lower_char CHR ''.'' \<in> set (map lower_char rest)" by (simp del: lower_char_dot)
    moreover have "lower_char CHR ''.'' = CHR ''.''" by (simp add: lower_char_dot)
    ultimately show False using e(3) assms(2) by simp
  qed
  moreover have "rest \<noteq> []" using e(3) assms(3) by auto
  ultimately show ?thesis using e(1) by blast
qed

lemma allowed_ext_shape:
  assumes "lower ext \<in> ALLOWED_EXTENSIONS"
  shows "\<exists>rest. ext = CHR ''.'' # rest \<and> CHR ''.'' \<notin> set rest \<and> rest \<noteq> []"
proof -
  from assms consider "lower ext = CHR ''.'' # ''pdf''" | "lower ext = CHR ''.'' # ''docx''"
    | "lower ext = CHR ''.'' # ''txt''"
    by (auto simp: ALLOWED_EXTENSIONS_def)
  then show ?thesis
  proof cases
    case 1 then show ?thesis by (rule lower_dot_ext) simp_all
  next
    case 2 then show ?thesis by (rule lower_dot_ext) simp_all
  next
    case 3 then show ?thesis by (rule lower_dot_ext) simp_all
  qed
qed

lemma path_suffix_stem_ext:
  assumes "path_name f = stem @ ext" "stem \<noteq> []" "lower ext \<in> ALLOWED_EXTENSIONS"
  shows "path_suffix f = ext"
proof -
  from allowed_ext_shape [OF assms(3)] obtain rest where
    r: "ext = CHR ''.'' # rest" "CHR ''.'' \<notin> set rest" "rest \<noteq> []" by blast
  have "rfind CHR ''.'' (path_name f) = Some (length stem)"
    using assms(1) r rfind_append [of "CHR ''.''" rest stem] by simp
  then show ?thesis using assms(1,2) r by (simp add: path_suffix_def Let_def)
qed

lemma path_suffix_split:
  assumes "path_suffix f \<noteq> []"
  shows "\<exists>stem. stem \<noteq> [] \<and> path_name f = stem @ path_suffix f"
proof -
  from assms obtain i where i: "rfind CHR ''.'' (path_name f) = Some i" "0 < i"
    "Suc i < length (path_name f)" "path_suffix f = drop i (path_name f)"
    by (auto simp: path_suffix_def Let_def split: option.splits if_splits)
  have "take i (path_name f) \<noteq> []" using i(2,3) by auto
  moreover have "path_name f = take i (path_name f) @ path_suffix f" using i(4) by simp
  ultimately show ?thesis by blast
qed

lemma is_allowed_file_iff_stem_ext:
  "is_allowed_file f \<longleftrightarrow>
     (\<exists>stem ext. path_name f = stem @ ext \<and> stem \<noteq> [] \<and> lower ext \<in> ALLOWED_EXTENSIONS)"
proof
  assume a: "is_allowed_file f"
  then have "path_suffix f \<noteq> []" by (auto simp: is_allowed_file_def ALLOWED_EXTENSIONS_def lower_def)
  from path_suffix_split [OF this] a show
    "\<exists>stem ext. path_name f = stem @ ext \<and> stem \<noteq> [] \<and> lower ext \<in> ALLOWED_EXTENSIONS"
    by (auto simp: is_allowed_file_def)
next
  assume "\<exists>stem ext. path_name f = stem @ ext \<and> stem \<noteq> [] \<and> lower ext \<in> ALLOWED_EXTENSIONS"
  then obtain stem ext where h: "path_name f = stem @ ext" "stem \<noteq> []"
    "lower ext \<in> ALLOWED_EXTENSIONS" by blast
  from path_suffix_stem_ext [OF h] h(3) show "is_allowed_file f" by (simp add: is_allowed_file_def)
qed

subsection \<open>Uploads\<close>

lemma upload_not_allowed:
  assumes "\<not> is_allowed_file f"
  shows "\<exists>detail. upload_document w ex rt app uid (Some f) c
           = (Inl (HTTPException 400 detail), app)"
  using assms by (simp add: upload_document_def)

lemma upload_allowed_unfold:
  assumes "name \<noteq> []" "is_allowed_file name" "length c \<le> MAX_FILE_SIZE" "writable (fs app)"
  shows "process_uploaded_file ex (fs app) (uuid4 rt) c name =
           ((Some (UPLOAD_DIR @ ''/'' @ uuid4 rt @ path_suffix name),
             Some (uuid4 rt @ path_suffix name),
             extract_text ex
               ((fs app)\<lparr>files := (files (fs app))
                  (UPLOAD_DIR @ ''/'' @ uuid4 rt @ path_suffix name \<mapsto> c)\<rparr>)
               (UPLOAD_DIR @ ''/'' @ uuid4 rt @ path_suffix name) (lower (path_suffix name))),
            (fs app)\<lparr>files := (files (fs app))
                  (UPLOAD_DIR @ ''/'' @ uuid4 rt @ path_suffix name \<mapsto> c)\<rparr>)"
  using assms
  by (simp add: process_uploaded_file_def save_file_def generate_unique_filename_def Let_def)

text \<open>
  Claim C4. \<open>is_allowed_file\<close> holds exactly when the lowercased \<open>Path(filename).suffix\<close>
  is \<open>.pdf\<close>, \<open>.docx\<close> or \<open>.txt\<close>, that is, when the last path component is a nonempty
  stem followed by one of these extensions in any letter case. For any other filename
  \<open>process_uploaded_file\<close> returns three \<open>None\<close>s and leaves the file system as it was,
  and \<open>upload_document\<close> raises an \<open>HTTPException\<close> with status 400 and changes nothing.
\<close>

theorem is_allowed_file_spec:
  "(is_allowed_file f \<longleftrightarrow> lower (path_suffix f) \<in> {''.pdf'', ''.docx'', ''.txt''})
   \<and> (is_allowed_file f \<longleftrightarrow>
        (\<exists>stem ext. path_name f = stem @ ext \<and> stem \<noteq> []
           \<and> lower ext \<in> {''.pdf'', ''.docx'', ''.txt''}))
   \<and> (\<not> is_allowed_file f \<longrightarrow>
        process_uploaded_file ex fs0 u c f = ((None, None, None), fs0)
        \<and> (\<exists>detail. upload_document w ex rt app uid (Some f) c
              = (Inl (HTTPException 400 detail), app)))"
proof -
  have a: "is_allowed_file f \<longleftrightarrow> lower (path_suffix f) \<in> {''.pdf'', ''.docx'', ''.txt''}"
    by (simp add: is_allowed_file_def ALLOWED_EXTENSIONS_def)
  have b: "is_allowed_file f \<longleftrightarrow>
        (\<exists>stem ext. path_name f = stem @ ext \<and> stem \<noteq> []
           \<and> lower ext \<in> {''.pdf'', ''.docx'', ''.txt''})"
    using is_allowed_file_iff_stem_ext [of f] by (simp add: ALLOWED_EXTENSIONS_def)
  have c: "\<not> is_allowed_file f \<longrightarrow>
        process_uploaded_file ex fs0 u c f = ((None, None, None), fs0)"
    by (simp add: process_uploaded_file_def)
  have d: "\<not> is_allowed_file f \<longrightarrow>
        (\<exists>detail. upload_document w ex rt app uid (Some f) c
              = (Inl (HTTPException 400 detail), app))"
    using upload_not_allowed by blast
  from a b c d show ?thesis by blast
qed

theorem is_allowed_file_spec_witness:
  "is_allowed_file ''reports/Annual.Report.PDF''
   \<and> \<not> is_allowed_file ''setup.exe''
   \<and> \<not> is_allowed_file ''.txt''
   \<and> process_uploaded_file example_extractors (fs example_app) (uuid4 example_runtime)
        [] ''setup.exe'' = ((None, None, None), fs example_app)
   \<and> (\<exists>detail. upload_document example_world example_extractors example_runtime example_app 1
         (Some ''setup.exe'') [] = (Inl (HTTPException 400 detail), example_app))
   \<and> fst (upload_document example_world example_extractors example_runtime example_app 1
         (Some ''setup.exe'') [])
       = Inl (HTTPException 400 ''File type not allowed. Allowed types: .txt, .pdf, .docx'')"
proof -
  have h1: "is_allowed_file ''reports/Annual.Report.PDF''" by code_simp
  have h2: "\<not> is_allowed_file ''setup.exe''" by code_simp
  have h3: "\<not> is_allowed_file ''.txt''" by code_simp
  have h4: "fst (upload_document example_world example_extractors example_runtime example_app 1
         (Some ''setup.exe'') [])
       = Inl (HTTPException 400 ''File type not allowed. Allowed types: .txt, .pdf, .docx'')"
    by code_simp
  from h1 h2 h3 h4 show ?thesis
    using is_allowed_file_spec [of "''setup.exe''" example_extractors "fs example_app"
        "uuid4 example_runtime" "[]" example_world example_runtime example_app 1]
    by blast
qed

text \<open>
  Claim C8. An upload whose content is longer than \<open>10 * 1024 * 1024\<close> bytes is answered
  with an \<open>HTTPException\<close> of status 400 and leaves the state (upload directory and
  document table) as it was; with an allowed filename the exception is the one of the
  size check. An upload of at most that size never gets the size check's exception, and
  with an allowed filename it reaches the file processor.
\<close>

theorem upload_size_check:
  "(length c > 10 * 1024 * 1024 \<longrightarrow>
      (\<exists>detail. upload_document w ex rt app uid filename c
         = (Inl (HTTPException 400 detail), app)))
   \<and> (length c > 10 * 1024 * 1024 \<and> name \<noteq> [] \<and> is_allowed_file name \<longrightarrow>
        upload_document w ex rt app uid (Some name) c
          = (Inl (HTTPException 400 ''File too large. Maximum size: 10.0 MB''), app))
   \<and> (length c \<le> 10 * 1024 * 1024 \<longrightarrow>
        fst (upload_document w ex rt app uid filename c)
          \<noteq> Inl (HTTPException 400 ''File too large. Maximum size: 10.0 MB''))
   \<and> (length c \<le> 10 * 1024 * 1024 \<and> name \<noteq> [] \<and> is_allowed_file name \<longrightarrow>
        fs (snd (upload_document w ex rt app uid (Some name) c))
          = snd (process_uploaded_file ex (fs app) (uuid4 rt) c name))"
proof -
  have a: "length c > 10 * 1024 * 1024 \<longrightarrow>
      (\<exists>detail. upload_document w ex rt app uid filename c
         = (Inl (HTTPException 400 detail), app))"
    by (cases filename) (simp_all add: upload_document_def MAX_FILE_SIZE_def)
  have b: "length c > 10 * 1024 * 1024 \<and> name \<noteq> [] \<and> is_allowed_file name \<longrightarrow>
        upload_document w ex rt app uid (Some name) c
          = (Inl (HTTPException 400 ''File too large. Maximum size: 10.0 MB''), app)"
    by (simp add: upload_document_def MAX_FILE_SIZE_def)
  have c: "length c \<le> 10 * 1024 * 1024 \<longrightarrow>
        fst (upload_document w ex rt app uid filename c)
          \<noteq> Inl (HTTPException 400 ''File too large. Maximum size: 10.0 MB'')"
    by (cases filename)
      (auto simp: upload_document_def MAX_FILE_SIZE_def
            split: prod.splits option.splits)
  have d: "length c \<le> 10 * 1024 * 1024 \<and> name \<noteq> [] \<and> is_allowed_file name \<longrightarrow>
        fs (snd (upload_document w ex rt app uid (Some name) c))
          = snd (process_uploaded_file ex (fs app) (uuid4 rt) c name)"
    by (auto simp: upload_document_def MAX_FILE_SIZE_def
            split: prod.splits option.splits)
  from a b c d show ?thesis by blast
qed

theorem upload_size_check_witness:
  "length (replicate 10485761 (0 :: 8 word)) > 10 * 1024 * 1024
   \<and> is_allowed_file ''scan.pdf''
   \<and> upload_document example_world example_extractors example_runtime example_app 1
        (Some ''scan.pdf'') (replicate 10485761 0)
       = (Inl (HTTPException 400 ''File too large. Maximum size: 10.0 MB''), example_app)
   \<and> fst (upload_document example_world example_extractors example_runtime example_app 1
        (Some ''scan.pdf'') (replicate 10485760 0))
       \<noteq> Inl (HTTPException 400 ''File too large. Maximum size: 10.0 MB'')"
proof -
  have h: "is_allowed_file ''scan.pdf''" by code_simp
  show ?thesis
    using h
      upload_size_check [of "replicate 10485761 0" example_world example_extractors
        example_runtime example_app 1 "Some ''scan.pdf''" "''scan.pdf''"]
      upload_size_check [of "replicate 10485760 0" example_world example_extractors
        example_runtime example_app 1 "Some ''scan.pdf''" "''scan.pdf''"]
    by simp
qed

text \<open>
  Claim C9. When a file with an allowed extension and a permitted size is saved and the
  text extraction then yields \<open>None\<close> or the empty string, \<open>upload_document\<close> raises
  the \<open>HTTPException\<close> 500 \<open>Failed to process file\<close>; the document table is as before,
  and the raw bytes stay in the upload directory under the generated name.
\<close>

theorem upload_extraction_failure:
  assumes "name \<noteq> []" and "is_allowed_file name" and "length c \<le> MAX_FILE_SIZE"
    and "writable (fs app)"
    and "path = UPLOAD_DIR @ ''/'' @ uuid4 rt @ path_suffix name"
    and "extract_text ex ((fs app)\<lparr>files := (files (fs app))(path \<mapsto> c)\<rparr>) path
           (lower (path_suffix name)) \<in> {None, Some []}"
  shows "upload_document w ex rt app uid (Some name) c
           = (Inl (HTTPException 500 ''Failed to process file''),
              app\<lparr>fs := (fs app)\<lparr>files := (files (fs app))(path \<mapsto> c)\<rparr>\<rparr>)
         \<and> db (snd (upload_document w ex rt app uid (Some name) c)) = db app
         \<and> files (fs (snd (upload_document w ex rt app uid (Some name) c))) path = Some c"
proof -
  let ?fs = "(fs app)\<lparr>files := (files (fs app))(path \<mapsto> c)\<rparr>"
  have p: "process_uploaded_file ex (fs app) (uuid4 rt) c name =
             ((Some path, Some (uuid4 rt @ path_suffix name),
               extract_text ex ?fs path (lower (path_suffix name))), ?fs)"
    using upload_allowed_unfold [OF assms(1-4)] assms(5) by simp
  have r: "upload_document w ex rt app uid (Some name) c
           = (Inl (HTTPException 500 ''Failed to process file''), app\<lparr>fs := ?fs\<rparr>)"
    using assms(1-3,6) by (auto simp: upload_document_def p)
  then show ?thesis by simp
qed

theorem upload_extraction_failure_witness:
  "upload_document example_world example_extractors example_runtime example_app 1
       (Some ''blank.txt'') [32, 10]
     = (Inl (HTTPException 500 ''Failed to process file''),
        example_app\<lparr>fs := (fs example_app)\<lparr>files := (files (fs example_app))
          (''uploads/0f8fad5b-d9cb-469f-a165-70867728950e.txt'' \<mapsto> [32, 10])\<rparr>\<rparr>)
   \<and> db (snd (upload_document example_world example_extractors example_runtime example_app 1
       (Some ''blank.txt'') [32, 10])) = db example_app
   \<and> files (fs (snd (upload_document example_world example_extractors example_runtime
       example_app 1 (Some ''blank.txt'') [32, 10])))
       ''uploads/0f8fad5b-d9cb-469f-a165-70867728950e.txt'' = Some [32, 10]
   \<and> fst (upload_document example_world example_extractors example_runtime example_app 1
       (Some ''scan.pdf'') []) = Inl (HTTPException 500 ''Failed to process file'')
   \<and> files (fs (snd (upload_document example_world example_extractors example_runtime
       example_app 1 (Some ''scan.pdf'') [])))
       ''uploads/0f8fad5b-d9cb-469f-a165-70867728950e.pdf'' = Some []"
proof -
  have h1: "''blank.txt'' \<noteq> []" by simp
  have h2: "is_allowed_file ''blank.txt''" by code_simp
  have h3: "length [32, 10 :: 8 word] \<le> MAX_FILE_SIZE" by (simp add: MAX_FILE_SIZE_def)
  have h4: "writable (fs example_app)" by (simp add: example_app_def)
  have s: "path_suffix ''blank.txt'' = ''.txt''" by code_simp
  have h5: "''uploads/0f8fad5b-d9cb-469f-a165-70867728950e.txt''
      = UPLOAD_DIR @ ''/'' @ uuid4 example_runtime @ path_suffix ''blank.txt''"
    by (simp add: s UPLOAD_DIR_def example_runtime_def)
  have l: "lower ''.txt'' = ''.txt''" by code_simp
  have st: "strip [char_of (32 :: nat), char_of (10 :: nat)] = []" by code_simp
  have h6: "extract_text example_extractors
      ((fs example_app)\<lparr>files := (files (fs example_app))
          (''uploads/0f8fad5b-d9cb-469f-a165-70867728950e.txt'' \<mapsto> [32, 10])\<rparr>)
      ''uploads/0f8fad5b-d9cb-469f-a165-70867728950e.txt''
      (lower (path_suffix ''blank.txt'')) \<in> {None, Some []}"
    unfolding s l
    by (simp add: extract_text_def l extract_text_from_txt_def example_extractors_def st)
  have g1: "''scan.pdf'' \<noteq> []" by simp
  have g2: "is_allowed_file ''scan.pdf''" by code_simp
  have g3: "length ([] :: 8 word list) \<le> MAX_FILE_SIZE" by simp
  have t: "path_suffix ''scan.pdf'' = ''.pdf''" by code_simp
  have g5: "''uploads/0f8fad5b-d9cb-469f-a165-70867728950e.pdf''
      = UPLOAD_DIR @ ''/'' @ uuid4 example_runtime @ path_suffix ''scan.pdf''"
    by (simp add: t UPLOAD_DIR_def example_runtime_def)
  have m: "lower ''.pdf'' = ''.pdf''" by code_simp
  have g6: "extract_text example_extractors
      ((fs example_app)\<lparr>files := (files (fs example_app))
          (''uploads/0f8fad5b-d9cb-469f-a165-70867728950e.pdf'' \<mapsto> [])\<rparr>)
      ''uploads/0f8fad5b-d9cb-469f-a165-70867728950e.pdf''
      (lower (path_suffix ''scan.pdf'')) \<in> {None, Some []}"
    unfolding t m
    by (simp add: extract_text_def m extract_text_from_pdf_def example_extractors_def)
  from upload_extraction_failure [OF h1 h2 h3 h4 h5 h6]
    upload_extraction_failure [OF g1 g2 g3 h4 g5 g6]
  show ?thesis by simp
qed

subsection \<open>Chat history\<close>






subsection \<open>The rule-based model\<close>

lemma contains_set: "contains sub s \<Longrightarrow> set sub \<subseteq> set s"
proof (induction s)
  case Nil
  then show ?case by simp
next
  case (Cons c cs)
  from Cons.prems have "take (length sub) (c # cs) = sub \<or> contains sub cs" by simp
  then show ?case
  proof
    assume "take (length sub) (c # cs) = sub"
    then have "set sub = set (take (length sub) (c # cs))" by simp
    then show ?thesis using set_take_subset [of "length sub" "c # cs"] by blast
  next
    assume "contains sub cs"
    with Cons.IH show ?thesis by auto
  qed
qed

lemma question_line_has_colon:
  assumes "contains ''question:'' (lower line)"
  shows "\<exists>q. after_first CHR '':'' line = Inr q"
proof -
  from contains_set [OF assms] have "CHR '':'' \<in> set (lower line)" by simp
  then obtain c where "c \<in> set line" "lower_char c = CHR '':''"
    by (auto simp: lower_def)
  then have "CHR '':'' \<in> set line" by (simp add: lower_char_colon)
  then have "dropWhile (\<lambda>x. x \<noteq> CHR '':'') line \<noteq> []" by (simp add: dropWhile_eq_Nil_conv)
  then show ?thesis by (cases "dropWhile (\<lambda>x. x \<noteq> CHR '':'') line") (simp_all add: after_first_def)
qed

lemma context_loop_described:
  "context_loop b acc ls =
     Inr (acc @ map strip (filter (\<lambda>l. \<not> contains ''context:'' (lower l))
            (if b then takeWhile (\<lambda>l. contains ''context:'' (lower l)
                                      \<or> \<not> contains ''question:'' (lower l)) ls
             else dropWhile (\<lambda>l. \<not> contains ''context:'' (lower l))
                    (takeWhile (\<lambda>l. contains ''context:'' (lower l)
                                      \<or> \<not> contains ''question:'' (lower l)) ls))))"
proof (induction ls arbitrary: b acc)
  case Nil
  then show ?case by simp
next
  case (Cons line ls)
  show ?case
  proof (cases "contains ''context:'' (lower line)")
    case True
    then show ?thesis by (simp add: Cons.IH)
  next
    case notctx: False
    show ?thesis
    proof (cases "contains ''question:'' (lower line)")
      case True
      from question_line_has_colon [OF True] obtain q where
        "after_first CHR '':'' line = Inr q" by blast
      with notctx True show ?thesis by simp
    next
      case False
      with notctx show ?thesis by (simp add: Cons.IH)
    qed
  qed
qed

lemma SimpleLLM_call_described:
  "SimpleLLM_call p =
     Inr (if contains ''context:'' (lower p) \<and> context_lines_described p \<noteq> []
          then ''Based on the document context: '' @ join '' '' (take 3 (context_lines_described p))
          else canned_message)"
  by (simp add: SimpleLLM_call_def context_loop_described context_lines_described_def Let_def)

lemma cannot_connect_message:
  "contains ''Error: Cannot connect''
     ''Error: Cannot connect to Ollama. Make sure Ollama is running on localhost:11434''"
  by code_simp

lemma choose_llm_eq:
  "choose_llm w =
     (if langchain_fault w ''test'' \<noteq> None
         \<or> contains ''Error: Cannot connect'' (OllamaLLM_call w ''test'')
      then SimpleLLM else OllamaLLM)"
  by (auto simp: choose_llm_def llm_invoke_def split: option.splits)

text \<open>
  Claim C5, amended. The constructed service's \<open>llm\<close> is \<open>SimpleLLM\<close> when the test
  invocation of the Ollama model raises or its response holds \<open>Error: Cannot connect\<close>
  (as it does when the server cannot be reached), and \<open>OllamaLLM\<close> otherwise. For every
  prompt \<open>SimpleLLM._call\<close> returns a string. The lines of the prompt are read in order,
  up to and without the first line that holds \<open>question:\<close> and does not hold
  \<open>context:\<close> (letter case ignored), or to the end when there is no such line. The
  context lines are the lines read after the first line that holds \<open>context:\<close>,
  without the lines that hold \<open>context:\<close>, each stripped; an empty line counts.
  When the lowercased prompt holds \<open>context:\<close> and there is at least one context
  line, the result is \<open>Based on the document context: \<close> followed by the first three
  context lines joined by single spaces; otherwise it is the canned message.
\<close>

theorem SimpleLLM_spec:
  "alt_llm (AlternativeAIService_init w emb idx) =
     (if langchain_fault w ''test'' \<noteq> None
         \<or> contains ''Error: Cannot connect'' (OllamaLLM_call w ''test'')
      then SimpleLLM else OllamaLLM)
   \<and> (ollama_post w ''test'' = CannotConnect \<longrightarrow>
        alt_llm (AlternativeAIService_init w emb idx) = SimpleLLM)
   \<and> (\<exists>s. SimpleLLM_call p = Inr s)
   \<and> SimpleLLM_call p =
       Inr (if contains ''context:'' (lower p) \<and> context_lines_described p \<noteq> []
            then ''Based on the document context: ''
                   @ join '' '' (take 3 (context_lines_described p))
            else canned_message)
   \<and> context_lines_described p =
       map strip
         (filter (\<lambda>l. \<not> contains ''context:'' (lower l))
            (dropWhile (\<lambda>l. \<not> contains ''context:'' (lower l))
               (takeWhile (\<lambda>l. contains ''context:'' (lower l)
                                  \<or> \<not> contains ''question:'' (lower l))
                  (split_on NL p))))"
proof -
  have a: "alt_llm (AlternativeAIService_init w emb idx) =
     (if langchain_fault w ''test'' \<noteq> None
         \<or> contains ''Error: Cannot connect'' (OllamaLLM_call w ''test'')
      then SimpleLLM else OllamaLLM)"
    by (simp add: AlternativeAIService_init_def choose_llm_eq)
  have b: "ollama_post w ''test'' = CannotConnect \<longrightarrow>
        alt_llm (AlternativeAIService_init w emb idx) = SimpleLLM"
  proof
    assume "ollama_post w ''test'' = CannotConnect"
    then have "contains ''Error: Cannot connect'' (OllamaLLM_call w ''test'')"
      using cannot_connect_message by (simp add: OllamaLLM_call_def)
    then show "alt_llm (AlternativeAIService_init w emb idx) = SimpleLLM"
      by (simp add: a)
  qed
  have d: "SimpleLLM_call p =
       Inr (if contains ''context:'' (lower p) \<and> context_lines_described p \<noteq> []
            then ''Based on the document context: ''
                   @ join '' '' (take 3 (context_lines_described p))
            else canned_message)"
    by (rule SimpleLLM_call_described)
  then have c: "\<exists>s. SimpleLLM_call p = Inr s" by blast
  have e: "context_lines_described p =
       map strip
         (filter (\<lambda>l. \<not> contains ''context:'' (lower l))
            (dropWhile (\<lambda>l. \<not> contains ''context:'' (lower l))
               (takeWhile (\<lambda>l. contains ''context:'' (lower l)
                                  \<or> \<not> contains ''question:'' (lower l))
                  (split_on NL p))))"
    by (simp add: context_lines_described_def Let_def)
  from a b c d e show ?thesis by blast
qed

theorem SimpleLLM_spec_witness:
  "ollama_post example_world ''test'' = CannotConnect
   \<and> alt_llm (AlternativeAIService_init example_world True (Some example_index)) = SimpleLLM
   \<and> context_lines_described (chat_prompt ''Revenue grew 12% in Q3.'' ''And costs?'')
       = [''Revenue grew 12% in Q3.'', []]
   \<and> SimpleLLM_call (chat_prompt ''Revenue grew 12% in Q3.'' ''And costs?'')
       = Inr ''Based on the document context: Revenue grew 12% in Q3. ''
   \<and> SimpleLLM_call (''Question: x'' @ [NL] @ ''Context:'' @ [NL] @ ''abc'')
       = Inr canned_message
   \<and> SimpleLLM_call (''Context:'' @ [NL] @ ''a'' @ [NL] @ ''context: question: y'' @ [NL] @ ''b'')
       = Inr ''Based on the document context: a b''
   \<and> SimpleLLM_call (''Context:'' @ [NL] @ ''1'' @ [NL] @ '' 2 '' @ [NL] @ ''3'' @ [NL] @ ''4''
          @ [NL] @ ''Question: q'' @ [NL] @ ''5'')
       = Inr ''Based on the document context: 1 2 3''"
proof -
  have e1: "SimpleLLM_call (''Question: x'' @ [NL] @ ''Context:'' @ [NL] @ ''abc'')
       = Inr canned_message" by code_simp
  have e2: "SimpleLLM_call (''Context:'' @ [NL] @ ''a'' @ [NL] @ ''context: question: y'' @ [NL] @ ''b'')
       = Inr ''Based on the document context: a b''" by code_simp
  have e3: "SimpleLLM_call (''Context:'' @ [NL] @ ''1'' @ [NL] @ '' 2 '' @ [NL] @ ''3'' @ [NL] @ ''4''
          @ [NL] @ ''Question: q'' @ [NL] @ ''5'')
       = Inr ''Based on the document context: 1 2 3''" by code_simp
  have h: "ollama_post example_world ''test'' = CannotConnect"
    by (simp add: example_world_def)
  have l: "context_lines_described (chat_prompt ''Revenue grew 12% in Q3.'' ''And costs?'')
       = [''Revenue grew 12% in Q3.'', []]" by code_simp
  have c: "contains ''context:'' (lower (chat_prompt ''Revenue grew 12% in Q3.'' ''And costs?''))"
    by code_simp
  note t = SimpleLLM_spec [of example_world True "Some example_index"
      "chat_prompt ''Revenue grew 12% in Q3.'' ''And costs?''"]
  from t h have a: "alt_llm (AlternativeAIService_init example_world True (Some example_index))
      = SimpleLLM" by blast
  from t have "SimpleLLM_call (chat_prompt ''Revenue grew 12% in Q3.'' ''And costs?'') =
       Inr (if contains ''context:'' (lower (chat_prompt ''Revenue grew 12% in Q3.'' ''And costs?''))
               \<and> context_lines_described (chat_prompt ''Revenue grew 12% in Q3.'' ''And costs?'') \<noteq> []
            then ''Based on the document context: ''
                   @ join '' '' (take 3 (context_lines_described
                        (chat_prompt ''Revenue grew 12% in Q3.'' ''And costs?'')))
            else canned_message)" by blast
  then have b: "SimpleLLM_call (chat_prompt ''Revenue grew 12% in Q3.'' ''And costs?'')
       = Inr ''Based on the document context: Revenue grew 12% in Q3. ''"
    by (simp add: l c)
  from h a l b e1 e2 e3 show ?thesis by blast
qed

text \<open>
  The claim as first stated fails on a prompt with a \<open>context:\<close> line, an empty line
  after it and no \<open>question:\<close> line: the answer is the context prefix, not the canned
  message.
\<close>

theorem SimpleLLM_canned_counterexample:
  "\<not> contains ''question:'' (lower (''context:'' @ [NL]))
   \<and> SimpleLLM_call (''context:'' @ [NL]) = Inr ''Based on the document context: ''
   \<and> SimpleLLM_call (''context:'' @ [NL]) \<noteq> Inr canned_message"
  by code_simp

subsection \<open>Failures of the backends\<close>

lemma try_except_returns: "\<exists>s. try_except body (\<lambda>e. Inr m) = Inr s"
  by (cases body) (simp_all add: try_except_def)

lemma alt_chat_returns:
  "\<exists>s. AlternativeAIService_chat_with_document w svc d q h = Inr s"
  unfolding AlternativeAIService_chat_with_document_def by (rule try_except_returns)

lemma hosted_chat_returns:
  "\<exists>s. AIService_chat_with_document w svc d q h = Inr s"
  unfolding AIService_chat_with_document_def by (rule try_except_returns)

lemma alt_summarize_returns:
  "\<exists>s. AlternativeAIService_summarize_document w svc content = Inr s"
  unfolding AlternativeAIService_summarize_document_def by (rule try_except_returns)

lemma hosted_summarize_returns:
  "\<exists>s. AIService_summarize_document w content = Inr s"
  unfolding AIService_summarize_document_def by (rule try_except_returns)

lemma alt_chat_failures:
  "AlternativeAIService_load_vectorstore svc d = Some vs \<Longrightarrow>
     similarity_search w vs q 3 = Inl e
       \<or> (\<exists>docs. similarity_search w vs q 3 = Inr docs \<and> docs \<noteq> []
             \<and> llm_invoke w (alt_llm svc) (chat_prompt (join [NL] docs) q) = Inl e) \<Longrightarrow>
     AlternativeAIService_chat_with_document w svc d q h
       = Inr ''I'm sorry, I encountered an error while processing your question.''"
  by (auto simp: AlternativeAIService_chat_with_document_def try_except_def Let_def)

lemma hosted_chat_failures:
  "AIService_load_vectorstore svc d = Some vs \<Longrightarrow>
     qa_chain_answer w (load_memory (case h of None \<Rightarrow> [] | Some x \<Rightarrow> x))
       (stored (fst vs) (snd vs)) q = Inl e \<Longrightarrow>
     AIService_chat_with_document w svc d q h
       = Inr ''I'm sorry, I encountered an error while processing your question.''"
  by (simp add: AIService_chat_with_document_def try_except_def Let_def)

lemma alt_summarize_failure:
  "llm_invoke w (alt_llm svc)
     (summary_prompt (if length content > 2000 then take 2000 content @ ''...'' else content))
     = Inl e \<Longrightarrow>
   AlternativeAIService_summarize_document w svc content = Inr ''Error generating summary.''"
  by (simp add: AlternativeAIService_summarize_document_def try_except_def Let_def)

lemma hosted_summarize_failure:
  "openai_completion w
     (hosted_summary_prompt (if length content > 3000 then take 3000 content else content))
     = Inl e \<Longrightarrow>
   AIService_summarize_document w content = Inr ''Error generating summary.''"
  by (simp add: AIService_summarize_document_def try_except_def Let_def)

lemma ollama_invoke:
  "langchain_fault w p = None \<Longrightarrow> llm_invoke w OllamaLLM p = Inr (OllamaLLM_call w p)"
  by (simp add: llm_invoke_def)

lemma alt_chat_ollama:
  assumes "AlternativeAIService_load_vectorstore svc d = Some vs"
    and "similarity_search w vs q 3 = Inr docs" and "docs \<noteq> []"
    and "alt_llm svc = OllamaLLM"
    and "langchain_fault w (chat_prompt (join [NL] docs) q) = None"
  shows "AlternativeAIService_chat_with_document w svc d q h
       = Inr (if OllamaLLM_call w (chat_prompt (join [NL] docs) q) \<noteq> []
              then strip (OllamaLLM_call w (chat_prompt (join [NL] docs) q))
              else ''I'm sorry, I couldn't generate a response based on the document content.'')"
  using assms ollama_invoke [OF assms(5)]
  by (simp add: AlternativeAIService_chat_with_document_def try_except_def Let_def)

lemma alt_summarize_ollama:
  assumes "alt_llm svc = OllamaLLM"
    and "langchain_fault w
      (summary_prompt (if length content > 2000 then take 2000 content @ ''...'' else content))
      = None"
  shows "AlternativeAIService_summarize_document w svc content
       = Inr (if OllamaLLM_call w (summary_prompt
                   (if length content > 2000 then take 2000 content @ ''...'' else content)) \<noteq> []
              then strip (OllamaLLM_call w (summary_prompt
                   (if length content > 2000 then take 2000 content @ ''...'' else content)))
              else ''Unable to generate summary.'')"
  using assms(1) ollama_invoke [OF assms(2)]
  by (simp add: AlternativeAIService_summarize_document_def try_except_def Let_def)

lemma ollama_failure_text:
  "(ollama_post w p = RequestFailed m \<longrightarrow> OllamaLLM_call w p = ''Error: '' @ m)
   \<and> (ollama_post w p = HttpResponse n body \<and> n \<noteq> 200 \<longrightarrow>
        OllamaLLM_call w p = ''Error: Ollama API returned status '' @ str_nat n)
   \<and> (ollama_post w p = HttpResponse 200 (JsonError m) \<longrightarrow>
        OllamaLLM_call w p = ''Error: '' @ m)
   \<and> (ollama_post w p = CannotConnect \<longrightarrow> OllamaLLM_call w p =
        ''Error: Cannot connect to Ollama. Make sure Ollama is running on localhost:11434'')"
  by (simp add: OllamaLLM_call_def)

text \<open>
  Claim C6, amended. For every input, \<open>chat_with_document\<close> and \<open>summarize_document\<close>
  of both backends return a string; no exception leaves them. When \<open>load_vectorstore\<close>
  returns \<open>None\<close>, \<open>chat_with_document\<close> returns the message that the document is not
  processed. An exception raised inside the method (by the search, by LangChain's call
  of the model, by the chain or by the completion) is caught and answered with the fixed
  apology, or with \<open>Error generating summary.\<close>. A failure of the Ollama request is not
  such an exception: \<open>OllamaLLM._call\<close> turns it into the text \<open>Error: \<close> followed by
  the failure's message or HTTP status, and the local backend returns that text,
  stripped, as the answer.
\<close>

theorem backend_failures_spec:
  "(\<exists>s. AlternativeAIService_chat_with_document w svc d q h = Inr s)
   \<and> (\<exists>s. AIService_chat_with_document w hsvc d q oh = Inr s)
   \<and> (\<exists>s. AlternativeAIService_summarize_document w svc content = Inr s)
   \<and> (\<exists>s. AIService_summarize_document w content = Inr s)
   \<and> (AlternativeAIService_load_vectorstore svc d = None \<longrightarrow>
        AlternativeAIService_chat_with_document w svc d q h
          = Inr ''Error: Document not processed or vectorstore not found. Please reprocess the document.'')
   \<and> (AIService_load_vectorstore hsvc d = None \<longrightarrow>
        AIService_chat_with_document w hsvc d q oh
          = Inr ''Error: Document not processed or vectorstore not found. Please reprocess the document.'')
   \<and> (\<forall>vs e. AlternativeAIService_load_vectorstore svc d = Some vs
          \<and> (similarity_search w vs q 3 = Inl e
               \<or> (\<exists>docs. similarity_search w vs q 3 = Inr docs \<and> docs \<noteq> []
                     \<and> llm_invoke w (alt_llm svc) (chat_prompt (join [NL] docs) q) = Inl e)) \<longrightarrow>
        AlternativeAIService_chat_with_document w svc d q h
          = Inr ''I'm sorry, I encountered an error while processing your question.'')
   \<and> (\<forall>vs e. AIService_load_vectorstore hsvc d = Some vs
          \<and> qa_chain_answer w (load_memory (case oh of None \<Rightarrow> [] | Some x \<Rightarrow> x))
                (stored (fst vs) (snd vs)) q = Inl e \<longrightarrow>
        AIService_chat_with_document w hsvc d q oh
          = Inr ''I'm sorry, I encountered an error while processing your question.'')
   \<and> (\<forall>e. llm_invoke w (alt_llm svc)
          (summary_prompt (if length content > 2000 then take 2000 content @ ''...'' else content))
          = Inl e \<longrightarrow>
        AlternativeAIService_summarize_document w svc content = Inr ''Error generating summary.'')
   \<and> (\<forall>e. openai_completion w
          (hosted_summary_prompt (if length content > 3000 then take 3000 content else content))
          = Inl e \<longrightarrow>
        AIService_summarize_document w content = Inr ''Error generating summary.'')
   \<and> (\<forall>vs docs. AlternativeAIService_load_vectorstore svc d = Some vs
          \<and> similarity_search w vs q 3 = Inr docs \<and> docs \<noteq> [] \<and> alt_llm svc = OllamaLLM
          \<and> langchain_fault w (chat_prompt (join [NL] docs) q) = None \<longrightarrow>
        AlternativeAIService_chat_with_document w svc d q h
          = Inr (if OllamaLLM_call w (chat_prompt (join [NL] docs) q) \<noteq> []
                 then strip (OllamaLLM_call w (chat_prompt (join [NL] docs) q))
                 else ''I'm sorry, I couldn't generate a response based on the document content.''))
   \<and> (alt_llm svc = OllamaLLM
        \<and> langchain_fault w (summary_prompt
             (if length content > 2000 then take 2000 content @ ''...'' else content)) = None \<longrightarrow>
        AlternativeAIService_summarize_document w svc content
          = Inr (if OllamaLLM_call w (summary_prompt
                      (if length content > 2000 then take 2000 content @ ''...'' else content)) \<noteq> []
                 then strip (OllamaLLM_call w (summary_prompt
                      (if length content > 2000 then take 2000 content @ ''...'' else content)))
                 else ''Unable to generate summary.''))
   \<and> (\<forall>p m. ollama_post w p = RequestFailed m \<longrightarrow> OllamaLLM_call w p = ''Error: '' @ m)
   \<and> (\<forall>p n body. ollama_post w p = HttpResponse n body \<and> n \<noteq> 200 \<longrightarrow>
        OllamaLLM_call w p = ''Error: Ollama API returned status '' @ str_nat n)
   \<and> (\<forall>p m. ollama_post w p = HttpResponse 200 (JsonError m) \<longrightarrow>
        OllamaLLM_call w p = ''Error: '' @ m)"
proof -
  have a: "AlternativeAIService_load_vectorstore svc d = None \<longrightarrow>
        AlternativeAIService_chat_with_document w svc d q h
          = Inr ''Error: Document not processed or vectorstore not found. Please reprocess the document.''"
    by (simp add: AlternativeAIService_chat_with_document_def try_except_def)
  have b: "AIService_load_vectorstore hsvc d = None \<longrightarrow>
        AIService_chat_with_document w hsvc d q oh
          = Inr ''Error: Document not processed or vectorstore not found. Please reprocess the document.''"
    by (simp add: AIService_chat_with_document_def try_except_def)
  have c: "\<forall>vs e. AlternativeAIService_load_vectorstore svc d = Some vs
          \<and> (similarity_search w vs q 3 = Inl e
               \<or> (\<exists>docs. similarity_search w vs q 3 = Inr docs \<and> docs \<noteq> []
                     \<and> llm_invoke w (alt_llm svc) (chat_prompt (join [NL] docs) q) = Inl e)) \<longrightarrow>
        AlternativeAIService_chat_with_document w svc d q h
          = Inr ''I'm sorry, I encountered an error while processing your question.''"
    using alt_chat_failures [of svc d _ w q _ h] by blast
  have e: "\<forall>vs e. AIService_load_vectorstore hsvc d = Some vs
          \<and> qa_chain_answer w (load_memory (case oh of None \<Rightarrow> [] | Some x \<Rightarrow> x))
                (stored (fst vs) (snd vs)) q = Inl e \<longrightarrow>
        AIService_chat_with_document w hsvc d q oh
          = Inr ''I'm sorry, I encountered an error while processing your question.''"
    using hosted_chat_failures [of hsvc d _ w oh q] by blast
  have f: "\<forall>e. llm_invoke w (alt_llm svc)
          (summary_prompt (if length content > 2000 then take 2000 content @ ''...'' else content))
          = Inl e \<longrightarrow>
        AlternativeAIService_summarize_document w svc content = Inr ''Error generating summary.''"
    using alt_summarize_failure by blast
  have g: "\<forall>e. openai_completion w
          (hosted_summary_prompt (if length content > 3000 then take 3000 content else content))
          = Inl e \<longrightarrow>
        AIService_summarize_document w content = Inr ''Error generating summary.''"
    using hosted_summarize_failure by blast
  have i: "\<forall>vs docs. AlternativeAIService_load_vectorstore svc d = Some vs
          \<and> similarity_search w vs q 3 = Inr docs \<and> docs \<noteq> [] \<and> alt_llm svc = OllamaLLM
          \<and> langchain_fault w (chat_prompt (join [NL] docs) q) = None \<longrightarrow>
        AlternativeAIService_chat_with_document w svc d q h
          = Inr (if OllamaLLM_call w (chat_prompt (join [NL] docs) q) \<noteq> []
                 then strip (OllamaLLM_call w (chat_prompt (join [NL] docs) q))
                 else ''I'm sorry, I couldn't generate a response based on the document content.'')"
    using alt_chat_ollama [of svc d _ w q _ h] by blast
  have j: "alt_llm svc = OllamaLLM
        \<and> langchain_fault w (summary_prompt
             (if length content > 2000 then take 2000 content @ ''...'' else content)) = None \<longrightarrow>
        AlternativeAIService_summarize_document w svc content
          = Inr (if OllamaLLM_call w (summary_prompt
                      (if length content > 2000 then take 2000 content @ ''...'' else content)) \<noteq> []
                 then strip (OllamaLLM_call w (summary_prompt
                      (if length content > 2000 then take 2000 content @ ''...'' else content)))
                 else ''Unable to generate summary.'')"
    using alt_summarize_ollama [of svc w content] by blast
  have k: "\<forall>p m. ollama_post w p = RequestFailed m \<longrightarrow> OllamaLLM_call w p = ''Error: '' @ m"
    using ollama_failure_text by blast
  have l: "\<forall>p n body. ollama_post w p = HttpResponse n body \<and> n \<noteq> 200 \<longrightarrow>
        OllamaLLM_call w p = ''Error: Ollama API returned status '' @ str_nat n"
    using ollama_failure_text by blast
  have m: "\<forall>p m. ollama_post w p = HttpResponse 200 (JsonError m) \<longrightarrow>
        OllamaLLM_call w p = ''Error: '' @ m"
    using ollama_failure_text by blast
  from alt_chat_returns [of w svc d q h] hosted_chat_returns [of w hsvc d q oh]
    alt_summarize_returns [of w svc content] hosted_summarize_returns [of w content]
    a b c e f g i j k l m
  show ?thesis by blast
qed

theorem backend_failures_spec_witness:
  "AlternativeAIService_load_vectorstore example_service 2 = None
   \<and> AlternativeAIService_chat_with_document example_faulty_world example_service 2
        ''What is this about?'' []
       = Inr ''Error: Document not processed or vectorstore not found. Please reprocess the document.''
   \<and> AIService_load_vectorstore example_hosted_service 2 = None
   \<and> AIService_chat_with_document example_faulty_world example_hosted_service 2
        ''What is this about?'' None
       = Inr ''Error: Document not processed or vectorstore not found. Please reprocess the document.''
   \<and> AlternativeAIService_chat_with_document example_faulty_world example_service 1
        ''What is this about?'' []
       = Inr ''I'm sorry, I encountered an error while processing your question.''
   \<and> AIService_chat_with_document example_faulty_world example_hosted_service 1
        ''What is this about?'' None
       = Inr ''I'm sorry, I encountered an error while processing your question.''
   \<and> llm_invoke example_faulty_world (alt_llm example_service) (summary_prompt ''text'')
       = Inl (Exception ''callback failed'')
   \<and> AlternativeAIService_summarize_document example_faulty_world example_service ''text''
       = Inr ''Error generating summary.''
   \<and> openai_completion example_faulty_world (hosted_summary_prompt ''text'')
       = Inl (Exception ''rate limit'')
   \<and> AIService_summarize_document example_faulty_world ''text''
       = Inr ''Error generating summary.''
   \<and> alt_llm example_timeout_service = OllamaLLM
   \<and> ollama_post example_timeout_world (summary_prompt ''text'') = RequestFailed ''Read timed out''
   \<and> AlternativeAIService_summarize_document example_timeout_world example_timeout_service
        ''text'' = Inr ''Error: Read timed out''"
proof -
  have h1: "AlternativeAIService_load_vectorstore example_service 2 = None" by code_simp
  have h2: "AIService_load_vectorstore example_hosted_service 2 = None" by code_simp
  have h3: "llm_invoke example_faulty_world (alt_llm example_service) (summary_prompt ''text'')
       = Inl (Exception ''callback failed'')"
    by (simp add: llm_invoke_def example_faulty_world_def)
  have h4: "openai_completion example_faulty_world (hosted_summary_prompt ''text'')
       = Inl (Exception ''rate limit'')"
    by (simp add: example_faulty_world_def)
  have h5: "AlternativeAIService_chat_with_document example_faulty_world example_service 1
        ''What is this about?'' []
       = Inr ''I'm sorry, I encountered an error while processing your question.''"
    by code_simp
  have h6: "AIService_chat_with_document example_faulty_world example_hosted_service 1
        ''What is this about?'' None
       = Inr ''I'm sorry, I encountered an error while processing your question.''"
    by code_simp
  have len: "(if length ''text'' > 2000 then take 2000 ''text'' @ ''...'' else ''text'') = ''text''"
    by simp
  have len': "(if length ''text'' > 3000 then take 3000 ''text'' else ''text'') = ''text''"
    by simp
  note t = backend_failures_spec [of example_faulty_world example_service 2
      "''What is this about?''" "[]" example_hosted_service None "''text''"]
  from t h1 have a: "AlternativeAIService_chat_with_document example_faulty_world
      example_service 2 ''What is this about?'' []
       = Inr ''Error: Document not processed or vectorstore not found. Please reprocess the document.''"
    by blast
  from t h2 have b: "AIService_chat_with_document example_faulty_world example_hosted_service 2
        ''What is this about?'' None
       = Inr ''Error: Document not processed or vectorstore not found. Please reprocess the document.''"
    by blast
  from t have "\<forall>e. llm_invoke example_faulty_world (alt_llm example_service)
          (summary_prompt (if length ''text'' > 2000 then take 2000 ''text'' @ ''...'' else ''text''))
          = Inl e \<longrightarrow>
        AlternativeAIService_summarize_document example_faulty_world example_service ''text''
          = Inr ''Error generating summary.''"
    by blast
  with h3 have c: "AlternativeAIService_summarize_document example_faulty_world
      example_service ''text'' = Inr ''Error generating summary.''"
    unfolding len by blast
  from t have "\<forall>e. openai_completion example_faulty_world
          (hosted_summary_prompt (if length ''text'' > 3000 then take 3000 ''text'' else ''text''))
          = Inl e \<longrightarrow>
        AIService_summarize_document example_faulty_world ''text''
          = Inr ''Error generating summary.''"
    by blast
  with h4 have d: "AIService_summarize_document example_faulty_world ''text''
       = Inr ''Error generating summary.''"
    unfolding len' by blast
  have o1: "alt_llm example_timeout_service = OllamaLLM" by code_simp
  have o2: "langchain_fault example_timeout_world (summary_prompt ''text'') = None"
    by (simp add: example_timeout_world_def example_world_def)
  have o3: "ollama_post example_timeout_world (summary_prompt ''text'')
      = RequestFailed ''Read timed out''" by code_simp
  have o4: "strip ''Error: Read timed out'' = ''Error: Read timed out''" by code_simp
  note u = backend_failures_spec [of example_timeout_world example_timeout_service 2
      "''What is this about?''" "[]" example_hosted_service None "''text''"]
  from u o3 have o5: "OllamaLLM_call example_timeout_world (summary_prompt ''text'')
      = ''Error: '' @ ''Read timed out''" by blast
  from u have "alt_llm example_timeout_service = OllamaLLM
        \<and> langchain_fault example_timeout_world (summary_prompt
             (if length ''text'' > 2000 then take 2000 ''text'' @ ''...'' else ''text'')) = None \<longrightarrow>
        AlternativeAIService_summarize_document example_timeout_world example_timeout_service ''text''
          = Inr (if OllamaLLM_call example_timeout_world (summary_prompt
                      (if length ''text'' > 2000 then take 2000 ''text'' @ ''...'' else ''text'')) \<noteq> []
                 then strip (OllamaLLM_call example_timeout_world (summary_prompt
                      (if length ''text'' > 2000 then take 2000 ''text'' @ ''...'' else ''text'')))
                 else ''Unable to generate summary.'')"
    by blast
  then have "AlternativeAIService_summarize_document example_timeout_world
      example_timeout_service ''text''
          = Inr (if OllamaLLM_call example_timeout_world (summary_prompt ''text'') \<noteq> []
                 then strip (OllamaLLM_call example_timeout_world (summary_prompt ''text''))
                 else ''Unable to generate summary.'')"
    unfolding len using o1 o2 by blast
  then have e: "AlternativeAIService_summarize_document example_timeout_world
      example_timeout_service ''text'' = Inr ''Error: Read timed out''"
    by (simp add: o5 o4)
  from h1 h2 h3 h4 h5 h6 a b c d o1 o3 e show ?thesis by blast
qed

text \<open>
  The claim as first stated fails where the Ollama request fails after the service is
  constructed: the answer is no fixed string, it is the text of the failure.
\<close>

theorem failure_text_returned_counterexample:
  "alt_llm example_timeout_service = OllamaLLM
   \<and> alt_llm example_overload_service = OllamaLLM
   \<and> AlternativeAIService_chat_with_document example_timeout_world example_timeout_service 1
        ''What is this about?'' [] = Inr ''Error: Read timed out''
   \<and> AlternativeAIService_chat_with_document example_overload_world example_overload_service 1
        ''What is this about?'' [] = Inr ''Error: Ollama API returned status 503''
   \<and> AlternativeAIService_summarize_document example_timeout_world example_timeout_service
        ''text'' = Inr ''Error: Read timed out''
   \<and> AlternativeAIService_summarize_document example_overload_world example_overload_service
        ''text'' = Inr ''Error: Ollama API returned status 503''"
  by code_simp

subsection \<open>Prior turns\<close>

text \<open>
  Claim C1. The claim asks that the prior turns reach the language-model call of the
  serving backend. In \<open>AlternativeAIService.chat_with_document\<close> they do not: the
  result is the same for every \<open>chat_history\<close>, whatever the models do. With an Ollama
  server that echoes its prompt, the prompt of a call with one prior turn is seen to
  hold the retrieved chunk and the question only. The hosted backend's
  \<open>create_conversation_chain\<close> does load the same turn into the chain's memory.
\<close>

theorem chat_history_ignored:
  "AlternativeAIService_chat_with_document w svc d q h
     = AlternativeAIService_chat_with_document w svc d q []
   \<and> AlternativeAIService_chat_with_document example_echo_world example_echo_service 1
        ''What is my name?'' [(''My name is Ada.'', ''Hello Ada.'')]
       = Inr (chat_prompt ''Revenue grew 12% in Q3.'' ''What is my name?'')
   \<and> AlternativeAIService_chat_with_document example_echo_world example_echo_service 1
        ''What is my name?'' []
       = Inr (chat_prompt ''Revenue grew 12% in Q3.'' ''What is my name?'')
   \<and> load_memory [(''My name is Ada.'', ''Hello Ada.'')]
       = [HumanMessage ''My name is Ada.'', AIMessage ''Hello Ada.'']"
proof -
  have a: "AlternativeAIService_chat_with_document w svc d q h
     = AlternativeAIService_chat_with_document w svc d q []"
    by (simp add: AlternativeAIService_chat_with_document_def)
  have b: "AlternativeAIService_chat_with_document example_echo_world example_echo_service 1
        ''What is my name?'' [(''My name is Ada.'', ''Hello Ada.'')]
       = Inr (chat_prompt ''Revenue grew 12% in Q3.'' ''What is my name?'')"
    by code_simp
  have c: "AlternativeAIService_chat_with_document example_echo_world example_echo_service 1
        ''What is my name?'' []
       = Inr (chat_prompt ''Revenue grew 12% in Q3.'' ''What is my name?'')"
    by code_simp
  have d: "load_memory [(''My name is Ada.'', ''Hello Ada.'')]
       = [HumanMessage ''My name is Ada.'', AIMessage ''Hello Ada.'']"
    by simp
  from a b c d show ?thesis by blast
qed

subsection \<open>The serving backend\<close>











subsection \<open>Namespaces and the vector index\<close>



lemma str_nat_nonempty: "str_nat n \<noteq> []"
  by (subst str_nat.simps) simp





















end
